theory Spec2Isabelle
  imports Complex_Main "HOL-Library.Sublist"
begin

section \<open>Ecobee thermostat plugin: the model of \<open>src/main.ts\<close>\<close>

text \<open>
  The plugin polls the Ecobee cloud API and translates between the vendor's encoding and
  the normalized device model of the hosting runtime. The definitions below follow
  \<open>src/main.ts\<close> function by function. Mutation of a device or of the controller is
  explicit state passing; a thrown exception is an \<open>Inl\<close> result returned together with
  the state reached at the throw (an exception does not undo earlier assignments).
\<close>

subsection \<open>The enumerations of the hosting runtime's SDK\<close>

text \<open>
  \<open>ThermostatMode\<close>, \<open>HumidityMode\<close>, \<open>AirQuality\<close>, \<open>TemperatureUnit\<close>,
  \<open>ScryptedDeviceType\<close> and \<open>ScryptedInterface\<close> are imported from \<open>@scrypted/sdk\<close>.
  Of the last two only the members that \<open>main.ts\<close> mentions are listed.
\<close>

datatype ThermostatMode =
  Off | Cool | Heat | HeatCool | Auto | FanOnly | Purifier | Eco | Dry | On

datatype HumidityMode = Humidify | Dehumidify | HAuto | HOff

datatype AirQuality = Unknown | Excellent | Good | Fair | Inferior | Poor

datatype TemperatureUnit = C | F

datatype ScryptedDeviceType = Thermostat | Sensor

datatype ScryptedInterface =
  Thermometer | HumiditySensor | Refresh | TemperatureSetting | OnOff
  | HumiditySetting | AirQualitySensor | VOCSensor | CO2Sensor

subsection \<open>Numbers\<close>

text \<open>
  A finite JavaScript number is a binary64 value, hence a rational. Comparisons and
  literals are exact on rationals. Every arithmetic operation rounds its exact result to
  binary64; that rounding, and the conversion of a number of magnitude at least \<open>10^21\<close>
  to text, belong to the JavaScript runtime and are parameters of the functions that
  compute. \<open>binary64_runtime\<close> below is the runtime with the binary64 rounding.
\<close>

record js_runtime =
  fp_round :: "rat \<Rightarrow> rat"
  number_toString :: "rat \<Rightarrow> string"

definition digit_char :: "nat \<Rightarrow> char" where
  "digit_char n = char_of (48 + n)"

function nat_toString :: "nat \<Rightarrow> string" where
  "nat_toString n =
     (if n < 10 then [digit_char n] else nat_toString (n div 10) @ [digit_char (n mod 10)])"
  by pat_completeness auto
termination
  by (relation "measure (\<lambda>n. n)") auto

declare nat_toString.simps [simp del]

text \<open>
  \<open>Number.prototype.toFixed(f)\<close> on a finite number: the integer \<open>n\<close> with \<open>n / 10^f\<close>
  nearest to \<open>|x|\<close>, the larger one on a tie, printed with \<open>f\<close> fraction digits and the
  sign of \<open>x\<close>. \<open>toFixed_value\<close> is the number that the printed text denotes.
\<close>

definition toFixed_int :: "rat \<Rightarrow> nat \<Rightarrow> nat" where
  "toFixed_int x f = nat \<lfloor>\<bar>x\<bar> * 10 ^ f + 1 / 2\<rfloor>"

definition toFixed :: "js_runtime \<Rightarrow> rat \<Rightarrow> nat \<Rightarrow> string" where
  "toFixed R x f =
     (if \<bar>x\<bar> \<ge> 10 ^ 21 then number_toString R x
      else
        let s = (if x < 0 then ''-'' else '''');
            m = nat_toString (toFixed_int x f);
            m = (if f \<noteq> 0
                 then (let m = (if length m \<le> f then replicate (f + 1 - length m) (CHR ''0'') @ m else m);
                           k = length m
                       in take (k - f) m @ ''.'' @ drop (k - f) m)
                 else m)
        in s @ m)"

definition toFixed_value :: "rat \<Rightarrow> nat \<Rightarrow> rat" where
  "toFixed_value x f =
     (if \<bar>x\<bar> \<ge> 10 ^ 21 then x
      else (if x < 0 then - 1 else 1) * (of_nat (toFixed_int x f) / 10 ^ f))"

text \<open>
  The binary64 rounding of the runtime, to nearest with ties to even: \<open>binary_exponent x\<close>
  is the exponent \<open>e\<close> with \<open>2^e \<le> |x| < 2^(e+1)\<close> (\<open>bit_length n\<close> is the number of
  binary digits of \<open>n\<close>), the spacing of the binary64 values around \<open>x\<close> is
  \<open>2^(e - 52)\<close>, and \<open>2^(-1074)\<close> below the normal range. A result beyond the largest
  finite binary64 value, which JavaScript turns into \<open>Infinity\<close>, is outside the model.
\<close>

function bit_length :: "int \<Rightarrow> int" where
  "bit_length n = (if n \<le> 0 then 0 else 1 + bit_length (n div 2))"
  by pat_completeness auto
termination
  by (relation "measure nat") auto

declare bit_length.simps [simp del]

definition binary_exponent :: "rat \<Rightarrow> int" where
  "binary_exponent x =
     (if 1 \<le> \<bar>x\<bar> then bit_length \<lfloor>\<bar>x\<bar>\<rfloor> - 1
      else - bit_length (\<lceil>1 / \<bar>x\<bar>\<rceil> - 1))"

definition round_half_even :: "rat \<Rightarrow> int" where
  "round_half_even y =
     (let n = \<lfloor>y\<rfloor>; r = y - of_int n
      in if r < 1 / 2 then n
         else if 1 / 2 < r then n + 1
         else if even n then n else n + 1)"

definition b64_round :: "rat \<Rightarrow> rat" where
  "b64_round x =
     (if x = 0 then 0
      else
        let e = max (binary_exponent x) (- 1022);
            q = 2 powi (e - 52)
        in of_int (round_half_even (x / q)) * q)"

text \<open>
  A runtime with binary64 arithmetic; the text it prints for a number of magnitude
  \<open>10^21\<close> or more stays a parameter.
\<close>

definition binary64_runtime :: "(rat \<Rightarrow> string) \<Rightarrow> js_runtime" where
  "binary64_runtime nts = \<lparr>fp_round = b64_round, number_toString = nts\<rparr>"

text \<open>
  The integer that a decimal text denotes: digits, with an optional leading minus sign
  (\<open>-0\<close> denotes 0). It reads the text that \<open>toFixed(0)\<close> prints.
\<close>

definition digit_value :: "char \<Rightarrow> nat option" where
  "digit_value c =
     (let n = (of_char c :: nat) in if 48 \<le> n \<and> n \<le> 57 then Some (n - 48) else None)"

fun digits_value :: "nat \<Rightarrow> string \<Rightarrow> nat option" where
  "digits_value acc [] = Some acc"
| "digits_value acc (c # cs) =
     (case digit_value c of None \<Rightarrow> None | Some v \<Rightarrow> digits_value (10 * acc + v) cs)"

definition decimal_value :: "string \<Rightarrow> int option" where
  "decimal_value s =
     (case s of
        [] \<Rightarrow> None
      | c # cs \<Rightarrow>
          if c = CHR ''-''
          then (if cs = [] then None else map_option (\<lambda>n. - int n) (digits_value 0 cs))
          else map_option int (digits_value 0 s))"

subsection \<open>Unit and enumeration translation\<close>

text \<open>
  \<open>ecobeeIntToCelsius\<close>: \<open>f = +intV/10; c = (5/9) * (f - 32); return +c.toFixed(2)\<close>.
  The argument is the JSON number of the vendor payload. The unary plus applied to the
  text of \<open>toFixed\<close> yields the binary64 value nearest to the decimal printed.
\<close>

definition ecobeeIntToCelsius :: "js_runtime \<Rightarrow> rat \<Rightarrow> rat" where
  "ecobeeIntToCelsius R intV =
     (let f = fp_round R (intV / 10);
          c = fp_round R (fp_round R (5 / 9) * fp_round R (f - 32))
      in fp_round R (toFixed_value c 2))"

text \<open>\<open>celsiusToEcobeeInt\<close>: \<open>f = (c * 1.8) + 32; return (f*10).toFixed(0)\<close>.\<close>

definition celsiusToEcobeeInt :: "js_runtime \<Rightarrow> rat \<Rightarrow> string" where
  "celsiusToEcobeeInt R c =
     (let f = fp_round R (fp_round R (c * fp_round R (18 / 10)) + 32)
      in toFixed R (fp_round R (f * 10)) 0)"

definition ecobeeToThermostatMode :: "string \<Rightarrow> ThermostatMode" where
  "ecobeeToThermostatMode mode =
     (if mode = ''cool'' then Cool
      else if mode = ''heat'' then Heat
      else if mode = ''auto'' then HeatCool
      else Off)"

fun thermostatModeToEcobee :: "ThermostatMode \<Rightarrow> string" where
  "thermostatModeToEcobee Cool = ''cool''"
| "thermostatModeToEcobee Heat = ''heat''"
| "thermostatModeToEcobee HeatCool = ''auto''"
| "thermostatModeToEcobee _ = ''off''"

definition humModeFromEcobee :: "string \<Rightarrow> HumidityMode" where
  "humModeFromEcobee mode =
     (if mode = ''auto'' then HAuto
      else if mode = ''manual'' then Humidify
      else HOff)"

subsection \<open>Strings\<close>

text \<open>
  Strings are lists of characters. \<open>toLowerCase\<close> is modelled on ASCII, the alphabet of
  the vendor's status vocabulary; \<open>str_includes s t\<close> is \<open>s.includes(t)\<close>;
  \<open>split_on c s\<close> is \<open>s.split(c)\<close> for a one-character separator.
\<close>

definition lower_char :: "char \<Rightarrow> char" where
  "lower_char c =
     (let n = (of_char c :: nat) in if 65 \<le> n \<and> n \<le> 90 then char_of (n + 32) else c)"

definition toLowerCase :: "string \<Rightarrow> string" where
  "toLowerCase s = map lower_char s"

definition str_includes :: "string \<Rightarrow> string \<Rightarrow> bool" where
  "str_includes s t = sublist t s"

fun split_acc :: "char \<Rightarrow> string \<Rightarrow> string \<Rightarrow> string list" where
  "split_acc c acc [] = [rev acc]"
| "split_acc c acc (x # xs) =
     (if x = c then rev acc # split_acc c [] xs else split_acc c (x # acc) xs)"

definition split_on :: "char \<Rightarrow> string \<Rightarrow> string list" where
  "split_on c s = split_acc c [] s"

text \<open>An array read \<open>xs[i]\<close>: \<open>undefined\<close> (here \<open>None\<close>) beyond the end.\<close>

fun index :: "'a list \<Rightarrow> nat \<Rightarrow> 'a option" where
  "index [] i = None"
| "index (x # xs) 0 = Some x"
| "index (x # xs) (Suc i) = index xs i"

subsection \<open>The device: class \<open>EcobeeThermostat\<close>\<close>

datatype setpoint_value = Scalar rat | Pair rat rat

record TemperatureSettingStatus =
  availableModes :: "ThermostatMode list"
  activeMode :: "ThermostatMode option"
  mode :: "ThermostatMode option"
  setpoint :: "setpoint_value option"

record HumiditySettingStatus =
  h_mode :: "HumidityMode option"
  h_availableModes :: "HumidityMode list"
  h_activeMode :: "HumidityMode option"
  humidifierSetpoint :: "rat option"

text \<open>
  The fields of a device that \<open>main.ts\<close> reads or writes. A field that has not been
  assigned yet is \<open>None\<close>. \<open>console\<close> collects the texts passed to \<open>console.log\<close>,
  without their \<open>[name] (date)\<close> prefix.
\<close>

record thermostat =
  nativeId :: string
  interfaces :: "ScryptedInterface list"
  temperatureUnit :: TemperatureUnit
  temperatureSetting :: TemperatureSettingStatus
  humiditySetting :: HumiditySettingStatus
  fan_on :: "bool option"
  temperature :: "rat option"
  humidity :: "rat option"
  airQuality :: "AirQuality option"
  vocDensity :: "rat option"
  co2ppm :: "rat option"
  revisionList :: "string list option"
  console :: "string list"

definition console_log :: "string \<Rightarrow> thermostat \<Rightarrow> thermostat" where
  "console_log msg d = d\<lparr>console := console d @ [msg]\<rparr>"

text \<open>The state the constructor leaves (the scheduled first refresh apart).\<close>

definition new_thermostat :: "string \<Rightarrow> thermostat" where
  "new_thermostat nid =
     \<lparr>nativeId = nid, interfaces = [], temperatureUnit = F,
      temperatureSetting =
        \<lparr>availableModes = [Cool, Heat, HeatCool, Off], activeMode = None, mode = None,
         setpoint = None\<rparr>,
      humiditySetting =
        \<lparr>h_mode = Some HOff, h_availableModes = [HAuto, Humidify, HOff],
         h_activeMode = None, humidifierSetpoint = None\<rparr>,
      fan_on = None, temperature = None, humidity = None, airQuality = None,
      vocDensity = None, co2ppm = None, revisionList = None, console = []\<rparr>"

definition updateEquipmentStatus :: "string \<Rightarrow> thermostat \<Rightarrow> thermostat" where
  "updateEquipmentStatus equipmentStatus0 d0 =
     (let equipmentStatus = toLowerCase equipmentStatus0;
          d = console_log (''Equipment status: '' @
                (if equipmentStatus = [] then ''not running'' else equipmentStatus)) d0;
          nextTemperatureSetting = temperatureSetting d;
          nextTemperatureSetting =
            (if str_includes equipmentStatus ''heat''
             then nextTemperatureSetting\<lparr>activeMode := Some Heat\<rparr>
             else if str_includes equipmentStatus ''cool''
             then nextTemperatureSetting\<lparr>activeMode := Some Cool\<rparr>
             else nextTemperatureSetting\<lparr>activeMode := Some Off\<rparr>);
          d = (if str_includes equipmentStatus ''fan''
               then d\<lparr>fan_on := Some True\<rparr> else d\<lparr>fan_on := Some False\<rparr>);
          nextHumiditySetting = humiditySetting d;
          nextHumiditySetting =
            (if str_includes equipmentStatus ''humidifier''
             then nextHumiditySetting\<lparr>h_activeMode := Some Humidify\<rparr>
             else nextHumiditySetting\<lparr>h_activeMode := Some HOff\<rparr>)
      in d\<lparr>humiditySetting := nextHumiditySetting,
            temperatureSetting := nextTemperatureSetting\<rparr>)"

definition listItems :: "string list" where
  "listItems = [''tId'', ''tName'', ''connected'', ''thermostat'', ''alerts'', ''runtime'',
                ''interval'']"

text \<open>
  The loop of \<open>_updateRevisionList\<close>, from index \<open>i\<close>: the first index below
  \<open>listItems.length\<close> at which the two lists differ is logged and ends the loop.
\<close>

function revisionLoop :: "nat \<Rightarrow> string list \<Rightarrow> string list \<Rightarrow> thermostat \<Rightarrow> bool \<times> thermostat" where
  "revisionLoop i newList oldList d =
     (if i < length listItems
      then (if index newList i \<noteq> index oldList i
            then (True, console_log ((listItems ! i) @ '' changes detected.'') d)
            else revisionLoop (i + 1) newList oldList d)
      else (False, d))"
  by pat_completeness auto
termination
  by (relation "measure (\<lambda>(i, newList, oldList, d). length listItems - i)") auto

declare revisionLoop.simps [simp del]

definition updateRevisionList :: "string \<Rightarrow> thermostat \<Rightarrow> bool \<times> thermostat" where
  "updateRevisionList listStr d0 =
     (let oldList = revisionList d0;
          newList = split_on (CHR '':'') listStr;
          d = d0\<lparr>revisionList := Some newList\<rparr>
      in case oldList of
           None \<Rightarrow> (True, d)
         | Some old \<Rightarrow> revisionLoop 3 newList old d)"

text \<open>
  A comparison \<open>x < k\<close> of JavaScript: false when \<open>x\<close> is \<open>undefined\<close> (it converts to
  \<open>NaN\<close>).
\<close>

definition js_lt :: "rat option \<Rightarrow> rat \<Rightarrow> bool" where
  "js_lt x k = (case x of None \<Rightarrow> False | Some v \<Rightarrow> v < k)"

definition js_ge :: "rat option \<Rightarrow> rat \<Rightarrow> bool" where
  "js_ge x k = (case x of None \<Rightarrow> False | Some v \<Rightarrow> v \<ge> k)"

definition aqBucket :: "rat option \<Rightarrow> AirQuality" where
  "aqBucket aqScore =
     (if js_lt aqScore 51 then Excellent
      else if js_lt aqScore 101 then Good
      else if js_lt aqScore 151 then Fair
      else if js_lt aqScore 201 then Poor
      else if js_lt aqScore 301 then Poor
      else if js_lt aqScore 501 then Inferior
      else Unknown)"

definition setAirQualityFromAQScore :: "rat option \<Rightarrow> thermostat \<Rightarrow> thermostat" where
  "setAirQualityFromAQScore aqScore d = d\<lparr>airQuality := Some (aqBucket aqScore)\<rparr>"

subsection \<open>The vendor API on the wire\<close>

text \<open>
  The requests that \<open>main.ts\<close> builds and the response bodies of the vendor API
  (\<open>/1/thermostatSummary\<close>, \<open>/1/thermostat\<close> by GET and by POST, \<open>/token\<close>). A field
  that a payload may lack is an option.
\<close>

record selection =
  selectionType :: string
  selectionMatch :: string
  includeSettings :: bool
  includeRuntime :: bool
  includeEquipmentStatus :: bool

datatype hold_temp = TempString string | TempNumber rat

record hold_params =
  holdType :: string
  heatHoldTemp :: hold_temp
  coolHoldTemp :: hold_temp
  fan :: "string option"
  isTemperatureAbsolute :: "string option"
  isTemperatureRelative :: "string option"

record hold_function =
  function_type :: string
  params :: hold_params

record post_body =
  body_selection :: selection
  body_functions :: "hold_function list option"
  body_thermostat_hvacMode :: "string option"

record api_request =
  req_method :: string
  baseURL :: string
  url :: string
  authorization :: string
  req_params :: "selection option"
  req_data :: "post_body option"
  timeout :: nat

record token_request =
  tokenUrl :: string
  grant_type :: string
  code :: "string option"
  refresh_token :: "string option"
  client_id :: "string option"
  ecobee_type :: string

record runtime_payload =
  actualTemperature :: rat
  actualHumidity :: rat
  desiredHeat :: rat
  desiredCool :: rat
  actualAQScore :: "rat option"
  actualVOC :: "rat option"
  actualCO2 :: "rat option"

record settings_payload =
  hvacMode :: string
  humidifierMode :: string
  settings_humidity :: rat
  hasHumidifier :: bool

record api_device =
  device_identifier :: string
  device_name :: string
  brand :: string
  modelNumber :: string
  settings :: settings_payload
  runtime :: runtime_payload
  equipmentStatus :: "string option"

datatype api_response =
  SummaryResponse "string list" "string list"
  | ThermostatResponse "api_device list"
  | StatusResponse int

record token_data =
  new_access_token :: string
  new_refresh_token :: string

datatype js_attempt = Undefined | NaN | Num int

text \<open>
  What a method can throw: the rejection of the HTTP client, with its message; the
  \<open>Error\<close> that \<open>req\<close> constructs, with the method, the endpoint and the attempt count
  of its message; a property read on \<open>undefined\<close>.
\<close>

datatype error =
  AxiosError string
  | RequestFailed string string js_attempt
  | TypeError

datatype http_event = ApiCall api_request | TokenCall token_request

text \<open>
  The HTTP client is the environment: the outcome of the \<open>n\<close>-th exchange of a run, for
  the request sent, is given by \<open>api_reply\<close> (\<open>axios.request\<close>) or \<open>token_reply\<close>
  (\<open>axios.post\<close> to \<open>/token\<close>); \<open>Inl\<close> is a rejected promise, with its message.
\<close>

record network =
  api_reply :: "nat \<Rightarrow> api_request \<Rightarrow> string + api_response"
  token_reply :: "nat \<Rightarrow> token_request \<Rightarrow> string + token_data"

subsection \<open>The controller: class \<open>EcobeeController\<close>\<close>

record controller =
  access_token :: "string option"
  storage :: "string \<Rightarrow> string option"
  provider_console :: "string list"
  http_log :: "http_event list"

definition API_RETRY :: int where
  "API_RETRY = 2"

definition provider_log :: "string \<Rightarrow> controller \<Rightarrow> controller" where
  "provider_log msg c = c\<lparr>provider_console := provider_console c @ [msg]\<rparr>"

text \<open>A value interpolated into a template literal: \<open>null\<close> and \<open>undefined\<close> print as such.\<close>

definition storage_text :: "controller \<Rightarrow> string \<Rightarrow> string" where
  "storage_text c k = (case storage c k of None \<Rightarrow> ''null'' | Some v \<Rightarrow> v)"

definition token_text :: "controller \<Rightarrow> string" where
  "token_text c = (case access_token c of None \<Rightarrow> ''undefined'' | Some t \<Rightarrow> t)"

definition axios_request :: "network \<Rightarrow> api_request \<Rightarrow> controller \<Rightarrow> (error + api_response) \<times> controller" where
  "axios_request N config c =
     (case api_reply N (length (http_log c)) config of
        Inl msg \<Rightarrow> Inl (AxiosError msg)
      | Inr response_data \<Rightarrow> Inr response_data,
      c\<lparr>http_log := http_log c @ [ApiCall config]\<rparr>)"

definition axios_post :: "network \<Rightarrow> token_request \<Rightarrow> controller \<Rightarrow> (error + token_data) \<times> controller" where
  "axios_post N tokenParams c =
     (case token_reply N (length (http_log c)) tokenParams of
        Inl msg \<Rightarrow> Inl (AxiosError msg)
      | Inr tokenData \<Rightarrow> Inr tokenData,
      c\<lparr>http_log := http_log c @ [TokenCall tokenParams]\<rparr>)"

definition getToken_params :: "controller \<Rightarrow> token_request" where
  "getToken_params c =
     \<lparr>tokenUrl = ''https://'' @ storage_text c ''api_base'' @ ''/token'',
      grant_type = ''ecobeePin'', code = storage c ''ecobee_code'',
      refresh_token = None, client_id = storage c ''client_id'',
      ecobee_type = ''jwt''\<rparr>"

definition getToken :: "network \<Rightarrow> controller \<Rightarrow> (error + unit) \<times> controller" where
  "getToken N c =
     (let tokenParams = getToken_params c
      in case axios_post N tokenParams c of
           (Inl e, c1) \<Rightarrow> (Inl e, c1)
         | (Inr tokenData, c1) \<Rightarrow>
             (Inr (),
              provider_log ''Got tokens''
                (c1\<lparr>access_token := Some (new_access_token tokenData),
                    storage := (storage c1)(''refresh_token'' \<mapsto> new_refresh_token tokenData)\<rparr>)))"

definition refreshToken_params :: "controller \<Rightarrow> token_request" where
  "refreshToken_params c =
     \<lparr>tokenUrl = ''https://'' @ storage_text c ''api_base'' @ ''/token'',
      grant_type = ''refresh_token'', code = None,
      refresh_token = storage c ''refresh_token'', client_id = storage c ''client_id'',
      ecobee_type = ''jwt''\<rparr>"

definition refreshToken :: "network \<Rightarrow> controller \<Rightarrow> (error + unit) \<times> controller" where
  "refreshToken N c =
     (let tokenParams = refreshToken_params c
      in case axios_post N tokenParams c of
           (Inl e, c1) \<Rightarrow> (Inl e, c1)
         | (Inr tokenData, c1) \<Rightarrow>
             (Inr (),
              provider_log ''Refreshed tokens''
                (c1\<lparr>access_token := Some (new_access_token tokenData),
                    storage := (storage c1)(''refresh_token'' \<mapsto> new_refresh_token tokenData)\<rparr>)))"

text \<open>
  The parameter \<open>attempt\<close> of \<open>req\<close> is optional: a caller that omits it passes
  \<open>undefined\<close>. \<open>attempt > API_RETRY\<close> converts \<open>undefined\<close> to \<open>NaN\<close> and is then
  false. The argument \<open>attempt++\<close> of the recursive call is the value before the
  increment, converted to a number.
\<close>

definition attempt_gt :: "js_attempt \<Rightarrow> int \<Rightarrow> bool" where
  "attempt_gt a k = (case a of Num n \<Rightarrow> n > k | _ \<Rightarrow> False)"

definition post_increment_value :: "js_attempt \<Rightarrow> js_attempt" where
  "post_increment_value a = (case a of Num n \<Rightarrow> Num n | _ \<Rightarrow> NaN)"

definition request_config :: "string \<Rightarrow> string \<Rightarrow> selection option \<Rightarrow> post_body option \<Rightarrow> controller \<Rightarrow> api_request" where
  "request_config method endpoint json data c =
     \<lparr>req_method = method,
      baseURL = ''https://'' @ storage_text c ''api_base'' @ ''/1/'',
      url = endpoint,
      authorization = ''Bearer '' @ token_text c,
      req_params = json,
      req_data = data,
      timeout = 10000\<rparr>"

text \<open>
  \<open>req\<close> may retry without end, so it is a partial function: \<open>None\<close> is a call that
  never returns.
\<close>

partial_function (option) req ::
  "network \<Rightarrow> string \<Rightarrow> string \<Rightarrow> selection option \<Rightarrow> post_body option \<Rightarrow> js_attempt \<Rightarrow> controller
     \<Rightarrow> ((error + api_response) \<times> controller) option" where
  "req N method endpoint json data attempt c =
     (if attempt_gt attempt API_RETRY
      then Some (Inl (RequestFailed method endpoint attempt), c)
      else
        case axios_request N (request_config method endpoint json data c) c of
          (Inr response_data, c1) \<Rightarrow> Some (Inr response_data, c1)
        | (Inl e, c1) \<Rightarrow>
            (case refreshToken N (provider_log ''req failed'' c1) of
               (Inl e2, c2) \<Rightarrow> Some (Inl e2, c2)
             | (Inr u, c2) \<Rightarrow>
                 req N method endpoint json data (post_increment_value attempt) c2))"

subsection \<open>The device's requests: \<open>reload\<close>, \<open>refresh\<close> and the commands\<close>

text \<open>
  A device holds a reference to its controller (\<open>this.provider\<close>), shared with the
  other devices; a method of the device runs on the pair of both states.
\<close>

record system =
  dev :: thermostat
  provider :: controller

text \<open>
  The part of \<open>reload\<close> after the payload \<open>data = thermostatList[0]\<close> has arrived. An
  absent \<open>equipmentStatus\<close> makes \<open>_updateEquipmentStatus\<close> throw at \<open>toLowerCase\<close>,
  after temperature and humidity have been assigned.
\<close>

definition reload_apply :: "js_runtime \<Rightarrow> api_device \<Rightarrow> thermostat \<Rightarrow> (error + unit) \<times> thermostat" where
  "reload_apply R data d0 =
     (let d = d0\<lparr>temperature := Some (ecobeeIntToCelsius R (actualTemperature (runtime data))),
                 humidity := Some (actualHumidity (runtime data))\<rparr>
      in case equipmentStatus data of
           None \<Rightarrow> (Inl TypeError, d)
         | Some es \<Rightarrow>
             (let d = updateEquipmentStatus es d;
                  nextTemperatureSetting =
                    (temperatureSetting d)\<lparr>mode := Some (ecobeeToThermostatMode (hvacMode (settings data)))\<rparr>;
                  nextTemperatureSetting =
                    (if hvacMode (settings data) = ''cool''
                     then nextTemperatureSetting
                            \<lparr>setpoint := Some (Scalar (ecobeeIntToCelsius R (desiredCool (runtime data))))\<rparr>
                     else if hvacMode (settings data) = ''heat''
                     then nextTemperatureSetting
                            \<lparr>setpoint := Some (Scalar (ecobeeIntToCelsius R (desiredHeat (runtime data))))\<rparr>
                     else nextTemperatureSetting
                            \<lparr>setpoint := Some (Pair (ecobeeIntToCelsius R (desiredHeat (runtime data)))
                                                   (ecobeeIntToCelsius R (desiredCool (runtime data))))\<rparr>);
                  nextHumiditySetting =
                    (humiditySetting d)
                      \<lparr>h_mode := Some (humModeFromEcobee (humidifierMode (settings data))),
                       humidifierSetpoint := Some (settings_humidity (settings data))\<rparr>;
                  d = (if AirQualitySensor \<in> set (interfaces d)
                       then setAirQualityFromAQScore (actualAQScore (runtime data)) d else d);
                  d = (if VOCSensor \<in> set (interfaces d)
                       then d\<lparr>vocDensity := map_option (\<lambda>v. fp_round R (v / 10)) (actualVOC (runtime data))\<rparr>
                       else d);
                  d = (if CO2Sensor \<in> set (interfaces d)
                       then d\<lparr>co2ppm := map_option (\<lambda>v. fp_round R (v / 10)) (actualCO2 (runtime data))\<rparr>
                       else d)
              in (Inr (), d\<lparr>temperatureSetting := nextTemperatureSetting,
                              humiditySetting := nextHumiditySetting\<rparr>)))"

definition reload :: "network \<Rightarrow> js_runtime \<Rightarrow> system \<Rightarrow> ((error + unit) \<times> system) option" where
  "reload N R s =
     (let json = \<lparr>selectionType = ''thermostats'', selectionMatch = nativeId (dev s),
                  includeSettings = True, includeRuntime = True, includeEquipmentStatus = True\<rparr>
      in case req N ''get'' ''thermostat'' (Some json) None Undefined (provider s) of
           None \<Rightarrow> None
         | Some (Inl e, c1) \<Rightarrow> Some (Inl e, s\<lparr>provider := c1\<rparr>)
         | Some (Inr response_data, c1) \<Rightarrow>
             (case response_data of
                ThermostatResponse thermostatList \<Rightarrow>
                  (let d = console_log ''Reload data'' (dev s)
                   in case index thermostatList 0 of
                        None \<Rightarrow> Some (Inl TypeError, \<lparr>dev = d, provider = c1\<rparr>)
                      | Some data \<Rightarrow>
                          (case reload_apply R data d of
                             (r, d1) \<Rightarrow> Some (r, \<lparr>dev = d1, provider = c1\<rparr>)))
              | _ \<Rightarrow> Some (Inl TypeError, s\<lparr>provider := c1\<rparr>)))"

definition refresh :: "network \<Rightarrow> js_runtime \<Rightarrow> string \<Rightarrow> system \<Rightarrow> ((error + unit) \<times> system) option" where
  "refresh N R refreshInterface s =
     (let d = console_log (refreshInterface @ '' requested refresh'') (dev s);
          json = \<lparr>selectionType = ''thermostats'', selectionMatch = nativeId (dev s),
                  includeSettings = False, includeRuntime = False, includeEquipmentStatus = True\<rparr>
      in case req N ''get'' ''thermostatSummary'' (Some json) None Undefined (provider s) of
           None \<Rightarrow> None
         | Some (Inl e, c1) \<Rightarrow> Some (Inl e, \<lparr>dev = d, provider = c1\<rparr>)
         | Some (Inr response_data, c1) \<Rightarrow>
             (case response_data of
                SummaryResponse revisions statusList \<Rightarrow>
                  (case index statusList 0 of
                     None \<Rightarrow> Some (Inl TypeError, \<lparr>dev = d, provider = c1\<rparr>)
                   | Some status \<Rightarrow>
                       (case index (split_on (CHR '':'') status) 1 of
                          None \<Rightarrow> Some (Inl TypeError, \<lparr>dev = d, provider = c1\<rparr>)
                        | Some es \<Rightarrow>
                            (let d = updateEquipmentStatus es d
                             in case index revisions 0 of
                                  None \<Rightarrow> Some (Inl TypeError, \<lparr>dev = d, provider = c1\<rparr>)
                                | Some listStr \<Rightarrow>
                                    (case updateRevisionList listStr d of
                                       (changed, d) \<Rightarrow>
                                         if changed then reload N R \<lparr>dev = d, provider = c1\<rparr>
                                         else Some (Inr (), \<lparr>dev = d, provider = c1\<rparr>)))))
              | _ \<Rightarrow> Some (Inl TypeError, \<lparr>dev = d, provider = c1\<rparr>)))"

record TemperatureCommand =
  command_mode :: "ThermostatMode option"
  command_setpoint :: "setpoint_value option"

definition registered_selection :: "string \<Rightarrow> selection" where
  "registered_selection nid =
     \<lparr>selectionType = ''registered'', selectionMatch = nid, includeSettings = False,
      includeRuntime = False, includeEquipmentStatus = False\<rparr>"

definition setHold :: "hold_temp \<Rightarrow> hold_temp \<Rightarrow> hold_function" where
  "setHold heat cool =
     \<lparr>function_type = ''setHold'',
      params = \<lparr>holdType = ''nextTransition'', heatHoldTemp = heat, coolHoldTemp = cool,
                fan = None, isTemperatureAbsolute = None, isTemperatureRelative = None\<rparr>\<rparr>"

text \<open>The payload that \<open>setTemperature\<close> builds before its API transaction.\<close>

definition setTemperature_data :: "js_runtime \<Rightarrow> string \<Rightarrow> TemperatureCommand \<Rightarrow> post_body" where
  "setTemperature_data R nid command =
     (let data = \<lparr>body_selection = registered_selection nid, body_functions = None,
                  body_thermostat_hvacMode = None\<rparr>;
          data =
            (case command_setpoint command of
               Some (Pair sp0 sp1) \<Rightarrow>
                 data\<lparr>body_functions :=
                   Some [setHold (TempString (celsiusToEcobeeInt R sp0))
                                 (TempString (celsiusToEcobeeInt R sp1))]\<rparr>
             | Some (Scalar sp) \<Rightarrow>
                 data\<lparr>body_functions :=
                   Some [setHold (TempString (celsiusToEcobeeInt R sp))
                                 (TempString (celsiusToEcobeeInt R sp))]\<rparr>
             | None \<Rightarrow> data)
      in case command_mode command of
           Some m \<Rightarrow> data\<lparr>body_thermostat_hvacMode := Some (thermostatModeToEcobee m)\<rparr>
         | None \<Rightarrow> data)"

definition setTemperature :: "network \<Rightarrow> js_runtime \<Rightarrow> TemperatureCommand \<Rightarrow> system \<Rightarrow> ((error + unit) \<times> system) option" where
  "setTemperature N R command s =
     (let d = console_log ''command'' (console_log ''setTemperature'' (dev s));
          data = setTemperature_data R (nativeId d) command;
          d = (case command_mode command of
                 Some m \<Rightarrow> console_log ''setTemperature.mode'' d
               | None \<Rightarrow> d)
      in case req N ''post'' ''thermostat'' None (Some data) Undefined (provider s) of
           None \<Rightarrow> None
         | Some (Inl e, c1) \<Rightarrow> Some (Inl e, \<lparr>dev = d, provider = c1\<rparr>)
         | Some (Inr resp, c1) \<Rightarrow>
             (case resp of
                StatusResponse status_code \<Rightarrow>
                  if status_code = 0
                  then reload N R \<lparr>dev = console_log ''setTemperature success'' d, provider = c1\<rparr>
                  else Some (Inr (), \<lparr>dev = console_log ''setTemperature failed'' d, provider = c1\<rparr>)
              | _ \<Rightarrow> Some (Inl TypeError, \<lparr>dev = d, provider = c1\<rparr>)))"

text \<open>The payload of \<open>turnOff\<close> (fan \<open>auto\<close>) and \<open>turnOn\<close> (fan \<open>on\<close>).\<close>

definition fan_data :: "string \<Rightarrow> string \<Rightarrow> post_body" where
  "fan_data nid fanMode =
     \<lparr>body_selection = registered_selection nid,
      body_functions =
        Some [\<lparr>function_type = ''setHold'',
               params = \<lparr>holdType = ''nextTransition'', heatHoldTemp = TempNumber 550,
                         coolHoldTemp = TempNumber 900, fan = Some fanMode,
                         isTemperatureAbsolute = Some ''false'',
                         isTemperatureRelative = Some ''false''\<rparr>\<rparr>],
      body_thermostat_hvacMode = None\<rparr>"

definition turnOff :: "network \<Rightarrow> js_runtime \<Rightarrow> system \<Rightarrow> ((error + unit) \<times> system) option" where
  "turnOff N R s =
     (let d = console_log ''fanOff: setting fan to auto'' (dev s);
          data = fan_data (nativeId d) ''auto''
      in case req N ''post'' ''thermostat'' None (Some data) Undefined (provider s) of
           None \<Rightarrow> None
         | Some (Inl e, c1) \<Rightarrow> Some (Inl e, \<lparr>dev = d, provider = c1\<rparr>)
         | Some (Inr resp, c1) \<Rightarrow>
             (case resp of
                StatusResponse status_code \<Rightarrow>
                  if status_code = 0
                  then reload N R \<lparr>dev = console_log ''fanOff success'' d, provider = c1\<rparr>
                  else Some (Inr (), \<lparr>dev = console_log ''fanOff failed'' d, provider = c1\<rparr>)
              | _ \<Rightarrow> Some (Inl TypeError, \<lparr>dev = d, provider = c1\<rparr>)))"

definition turnOn :: "network \<Rightarrow> js_runtime \<Rightarrow> system \<Rightarrow> ((error + unit) \<times> system) option" where
  "turnOn N R s =
     (let d = console_log ''fanOn: setting fan to on'' (dev s);
          data = fan_data (nativeId d) ''on''
      in case req N ''post'' ''thermostat'' None (Some data) Undefined (provider s) of
           None \<Rightarrow> None
         | Some (Inl e, c1) \<Rightarrow> Some (Inl e, \<lparr>dev = d, provider = c1\<rparr>)
         | Some (Inr resp, c1) \<Rightarrow>
             (case resp of
                StatusResponse status_code \<Rightarrow>
                  if status_code = 0
                  then reload N R \<lparr>dev = console_log ''fanOn success'' d, provider = c1\<rparr>
                  else Some (Inr (), \<lparr>dev = console_log ''fanOn failed'' d, provider = c1\<rparr>)
              | _ \<Rightarrow> Some (Inl TypeError, \<lparr>dev = d, provider = c1\<rparr>)))"

subsection \<open>Discovery\<close>

record Device =
  device_nativeId :: string
  device_label :: string
  device_type :: ScryptedDeviceType
  info_model :: string
  info_manufacturer :: string
  info_serialNumber :: string
  device_interfaces :: "ScryptedInterface list"

text \<open>
  One round of the loop of \<open>discoverDevices\<close> over the devices of the vendor's reply: the
  \<open>Device\<close> built for \<open>apiDevice\<close>, under the stored settings (the log lines of the
  loop are left out). \<open>discover_loop\<close> is the loop, pushing each \<open>Device\<close> onto the list
  that is then published to the device registry.
\<close>

definition discover_device :: "(string \<Rightarrow> string option) \<Rightarrow> api_device \<Rightarrow> Device" where
  "discover_device store apiDevice =
     (let deviceType = Thermostat;
          interfaces0 = [Thermometer, HumiditySensor, Refresh];
          (deviceType, interfaces0) =
            (if store ''sensors_only'' = Some ''true''
             then (Sensor, interfaces0)
             else (deviceType,
                   (interfaces0 @ [TemperatureSetting, OnOff])
                   @ (if hasHumidifier (settings apiDevice) then [HumiditySetting] else [])));
          interfaces0 = interfaces0 @
            (if js_ge (actualAQScore (runtime apiDevice)) 0 then [AirQualitySensor] else []);
          interfaces0 = interfaces0 @
            (if js_ge (actualVOC (runtime apiDevice)) 0 then [VOCSensor] else []);
          interfaces0 = interfaces0 @
            (if js_ge (actualCO2 (runtime apiDevice)) 0 then [CO2Sensor] else [])
      in \<lparr>device_nativeId = device_identifier apiDevice,
          device_label = device_name apiDevice @ '' thermostat'',
          device_type = deviceType,
          info_model = brand apiDevice,
          info_manufacturer = modelNumber apiDevice,
          info_serialNumber = device_identifier apiDevice,
          device_interfaces = interfaces0\<rparr>)"

fun discover_loop :: "(string \<Rightarrow> string option) \<Rightarrow> api_device list \<Rightarrow> Device list \<Rightarrow> Device list" where
  "discover_loop store [] devices = devices"
| "discover_loop store (apiDevice # rest) devices =
     discover_loop store rest (devices @ [discover_device store apiDevice])"

subsection \<open>Sample runs\<close>

text \<open>
  Concrete environments and states on which the theorems below are instantiated:
  a runtime whose arithmetic is exact, a controller with stored credentials, a device
  fresh from its constructor, one device of the vendor's reply, and networks that
  accept, refuse, reject or drop every request.
\<close>

definition exact_runtime :: js_runtime where
  "exact_runtime = \<lparr>fp_round = (\<lambda>x. x), number_toString = (\<lambda>x. ''1e+21'')\<rparr>"

definition controller0 :: controller where
  "controller0 =
     \<lparr>access_token = None,
      storage = [''api_base'' \<mapsto> ''api.ecobee.com'', ''client_id'' \<mapsto> ''app'',
                 ''ecobee_code'' \<mapsto> ''code0'', ''refresh_token'' \<mapsto> ''refresh0''],
      provider_console = [], http_log = []\<rparr>"

definition system0 :: system where
  "system0 = \<lparr>dev = new_thermostat ''t1'', provider = controller0\<rparr>"

definition device0 :: api_device where
  "device0 =
     \<lparr>device_identifier = ''t1'', device_name = ''Home'', brand = ''ecobee'',
      modelNumber = ''athenaSmart'',
      settings = \<lparr>hvacMode = ''heat'', humidifierMode = ''off'', settings_humidity = 36,
                  hasHumidifier = True\<rparr>,
      runtime = \<lparr>actualTemperature = 711, actualHumidity = 40, desiredHeat = 680,
                 desiredCool = 780, actualAQScore = Some 60, actualVOC = Some 500,
                 actualCO2 = None\<rparr>,
      equipmentStatus = Some ''fan,auxHeat1''\<rparr>"

definition token0 :: token_data where
  "token0 = \<lparr>new_access_token = ''access1'', new_refresh_token = ''refresh1''\<rparr>"

text \<open>Every request succeeds; a POST is answered with the status code \<open>k\<close>.\<close>

definition answering_network :: "int \<Rightarrow> network" where
  "answering_network k =
     \<lparr>api_reply = (\<lambda>n r. if req_method r = ''post'' then Inr (StatusResponse k)
                          else Inr (ThermostatResponse [device0])),
      token_reply = (\<lambda>n r. Inr token0)\<rparr>"

text \<open>Every API request is rejected, every token refresh succeeds.\<close>

definition rejecting_network :: network where
  "rejecting_network = \<lparr>api_reply = (\<lambda>n r. Inl ''401''), token_reply = (\<lambda>n r. Inr token0)\<rparr>"

text \<open>
  The first three API requests are rejected (exchanges 0, 2 and 4, each followed by a
  token refresh), the fourth one succeeds.
\<close>

definition flaky_network :: network where
  "flaky_network =
     \<lparr>api_reply = (\<lambda>n r. if n < 6 then Inl ''401'' else Inr (StatusResponse 0)),
      token_reply = (\<lambda>n r. Inr token0)\<rparr>"

text \<open>No exchange succeeds.\<close>

definition dead_network :: network where
  "dead_network = \<lparr>api_reply = (\<lambda>n r. Inl ''timeout''), token_reply = (\<lambda>n r. Inl ''timeout'')\<rparr>"

text \<open>
  The first exchange of a run is answered with status code 0; every later request and
  every token refresh is rejected.
\<close>

definition lapsing_network :: network where
  "lapsing_network =
     \<lparr>api_reply = (\<lambda>n r. if n = 0 then Inr (StatusResponse 0) else Inl ''timeout''),
      token_reply = (\<lambda>n r. Inl ''timeout'')\<rparr>"

text \<open>
  Every request succeeds; the summary reports the revision list \<open>t1:Home:true:1:2:3:4\<close>
  and a running fan and auxiliary heat.
\<close>

definition summary_network :: network where
  "summary_network =
     \<lparr>api_reply = (\<lambda>n r. if url r = ''thermostatSummary''
                          then Inr (SummaryResponse [''t1:Home:true:1:2:3:4''] [''t1:fan,auxHeat1''])
                          else Inr (ThermostatResponse [device0])),
      token_reply = (\<lambda>n r. Inr token0)\<rparr>"

text \<open>A device that has stored a revision list in an earlier refresh.\<close>

definition system1 :: system where
  "system1 =
     \<lparr>dev = (new_thermostat ''t1'')
              \<lparr>revisionList := Some [''t1'', ''Old name'', ''false'', ''1'', ''2'', ''3'', ''4'']\<rparr>,
      provider = controller0\<rparr>"

definition command_scalar :: TemperatureCommand where
  "command_scalar = \<lparr>command_mode = Some Heat, command_setpoint = Some (Scalar 21)\<rparr>"

definition command_pair :: TemperatureCommand where
  "command_pair = \<lparr>command_mode = None, command_setpoint = Some (Pair 20 24)\<rparr>"

section \<open>Properties\<close>

subsection \<open>Evaluation of \<open>req\<close>\<close>

lemma req_first_try:
  assumes "api_reply N (length (http_log c)) (request_config method endpoint json data c) = Inr r"
  shows "req N method endpoint json data Undefined c =
           Some (Inr r, c\<lparr>http_log := http_log c @ [ApiCall (request_config method endpoint json data c)]\<rparr>)"
  using assms by (subst req.simps) (simp add: attempt_gt_def axios_request_def)

lemma req_dead_network:
  "map_option fst (req dead_network method endpoint json data Undefined c)
     = Some (Inl (AxiosError ''timeout''))"
  by (subst req.simps)
     (simp add: attempt_gt_def axios_request_def refreshToken_def axios_post_def
        dead_network_def Let_def)

lemma post_increment_not_gt:
  "\<not> attempt_gt a k \<Longrightarrow> \<not> attempt_gt (post_increment_value a) k"
  by (cases a) (simp_all add: attempt_gt_def post_increment_value_def)

text \<open>
  On a network that rejects every API request and accepts every token refresh, a call of
  \<open>req\<close> can only return through the check of \<open>attempt\<close> on entry.
\<close>

lemma req_rejecting_returns:
  assumes "req N method endpoint json data a c = Some y"
  shows "N = rejecting_network \<longrightarrow> attempt_gt a API_RETRY"
proof (rule req.raw_induct
    [where P = "\<lambda>N method endpoint json data a c y. N = rejecting_network \<longrightarrow> attempt_gt a API_RETRY",
     OF _ assms])
  fix req' N meth ep json data a c y
  assume IH: "\<And>N meth ep json data a c y.
      req' N meth ep json data a c = Some y \<Longrightarrow>
      N = rejecting_network \<longrightarrow> attempt_gt a API_RETRY"
    and body: "(if attempt_gt a API_RETRY
      then Some (Inl (RequestFailed meth ep a), c)
      else case axios_request N (request_config meth ep json data c) c of
           (Inl e, c1) \<Rightarrow>
             (case refreshToken N (provider_log ''req failed'' c1) of
               (Inl e2, c2) \<Rightarrow> Some (Inl e2, c2)
             | (Inr u, c2) \<Rightarrow>
                 req' N meth ep json data (post_increment_value a) c2)
           | (Inr response_data, c1) \<Rightarrow> Some (Inr response_data, c1)) = Some y"
  show "N = rejecting_network \<longrightarrow> attempt_gt a API_RETRY"
  proof (intro impI, rule ccontr)
    assume N: "N = rejecting_network" and a: "\<not> attempt_gt a API_RETRY"
    from body a N obtain c2 where
      "req' N meth ep json data (post_increment_value a) c2 = Some y"
      by (simp add: axios_request_def refreshToken_def axios_post_def rejecting_network_def Let_def)
    from IH [OF this] N have "attempt_gt (post_increment_value a) API_RETRY" by simp
    with a post_increment_not_gt show False by blast
  qed
qed

lemma req_rejecting_network:
  "req rejecting_network method endpoint json data Undefined c = None"
proof (cases "req rejecting_network method endpoint json data Undefined c")
  case None
  then show ?thesis .
next
  case (Some y)
  from req_rejecting_returns [OF this] have "attempt_gt Undefined API_RETRY" by simp
  then show ?thesis by (simp add: attempt_gt_def)
qed

text \<open>
  C1. The claim: a request that errors on each attempt is retried after a token refresh,
  at most \<open>API_RETRY = 2\<close> times, and then \<open>req\<close> raises \<open>RequestFailed\<close>; a call whose
  request fails 3 consecutive times returns that error. The code, at these inputs: when
  every request is rejected and every refresh succeeds, \<open>req\<close> never returns; when three
  requests are rejected and the fourth is accepted, \<open>req\<close> returns the fourth response,
  after 7 exchanges (4 requests and 3 refreshes).
\<close>

theorem req_retry_bound_not_enforced:
  "req rejecting_network ''get'' ''thermostat'' None None Undefined controller0 = None
   \<and> map_option fst (req flaky_network ''get'' ''thermostat'' None None Undefined controller0)
       = Some (Inr (StatusResponse 0))
   \<and> map_option (length \<circ> http_log \<circ> snd)
         (req flaky_network ''get'' ''thermostat'' None None Undefined controller0)
       = Some 7"
proof (intro conjI)
  show "req rejecting_network ''get'' ''thermostat'' None None Undefined controller0 = None"
    by (rule req_rejecting_network)
  show "map_option fst (req flaky_network ''get'' ''thermostat'' None None Undefined controller0)
       = Some (Inr (StatusResponse 0))"
    by (simp add: req.simps attempt_gt_def post_increment_value_def axios_request_def
        refreshToken_def axios_post_def flaky_network_def controller0_def Let_def provider_log_def)
  show "map_option (length \<circ> http_log \<circ> snd)
         (req flaky_network ''get'' ''thermostat'' None None Undefined controller0)
       = Some 7"
    by (simp add: req.simps attempt_gt_def post_increment_value_def axios_request_def
        refreshToken_def axios_post_def flaky_network_def controller0_def Let_def provider_log_def)
qed

text \<open>
  With the argument \<open>attempt\<close> omitted, as every caller omits it, the only error that
  \<open>req\<close> can raise on any network is the rejection of a token refresh; it never is
  \<open>RequestFailed\<close>.
\<close>

lemma refreshToken_error:
  "refreshToken N c = (Inl e, c') \<Longrightarrow> \<exists>msg. e = AxiosError msg"
  by (auto simp: refreshToken_def axios_post_def Let_def split: sum.splits)

lemma req_error_is_refresh_error:
  assumes "req N method endpoint json data a c = Some y"
  shows "\<not> attempt_gt a API_RETRY \<longrightarrow> (\<forall>e. fst y = Inl e \<longrightarrow> (\<exists>msg. e = AxiosError msg))"
proof (rule req.raw_induct
    [where P = "\<lambda>N method endpoint json data a c y.
        \<not> attempt_gt a API_RETRY \<longrightarrow> (\<forall>e. fst y = Inl e \<longrightarrow> (\<exists>msg. e = AxiosError msg))",
     OF _ assms])
  fix req' N meth ep json data a c y
  assume IH: "\<And>N meth ep json data a c y.
      req' N meth ep json data a c = Some y \<Longrightarrow>
      \<not> attempt_gt a API_RETRY \<longrightarrow> (\<forall>e. fst y = Inl e \<longrightarrow> (\<exists>msg. e = AxiosError msg))"
    and body: "(if attempt_gt a API_RETRY
      then Some (Inl (RequestFailed meth ep a), c)
      else case axios_request N (request_config meth ep json data c) c of
           (Inl e, c1) \<Rightarrow>
             (case refreshToken N (provider_log ''req failed'' c1) of
               (Inl e2, c2) \<Rightarrow> Some (Inl e2, c2)
             | (Inr u, c2) \<Rightarrow>
                 req' N meth ep json data (post_increment_value a) c2)
           | (Inr response_data, c1) \<Rightarrow> Some (Inr response_data, c1)) = Some y"
  show "\<not> attempt_gt a API_RETRY \<longrightarrow> (\<forall>e. fst y = Inl e \<longrightarrow> (\<exists>msg. e = AxiosError msg))"
  proof (intro impI allI)
    fix e
    assume a: "\<not> attempt_gt a API_RETRY" and e: "fst y = Inl e"
    obtain r1 c1 where r1: "axios_request N (request_config meth ep json data c) c = (r1, c1)"
      by (cases "axios_request N (request_config meth ep json data c) c")
    show "\<exists>msg. e = AxiosError msg"
    proof (cases r1)
      case (Inr resp)
      with body a r1 e show ?thesis by auto
    next
      case (Inl e1)
      obtain r2 c2 where r2: "refreshToken N (provider_log ''req failed'' c1) = (r2, c2)"
        by (cases "refreshToken N (provider_log ''req failed'' c1)")
      show ?thesis
      proof (cases r2)
        case (Inl e2)
        with body a r1 \<open>r1 = Inl e1\<close> r2 e have "e = e2" by auto
        with refreshToken_error r2 Inl show ?thesis by blast
      next
        case (Inr u)
        with body a r1 \<open>r1 = Inl e1\<close> r2
        have "req' N meth ep json data (post_increment_value a) c2 = Some y" by simp
        from IH [OF this] a post_increment_not_gt e show ?thesis by blast
      qed
    qed
  qed
qed

subsection \<open>Translation\<close>

text \<open>
  C6. \<open>ecobeeToThermostatMode\<close> maps \<open>cool\<close> to \<open>Cool\<close>, \<open>heat\<close> to \<open>Heat\<close>, \<open>auto\<close> to
  \<open>HeatCool\<close> and every other string, \<open>auxHeatOnly\<close> among them, to \<open>Off\<close>;
  \<open>thermostatModeToEcobee\<close> maps \<open>HeatCool\<close> to \<open>auto\<close>; translating one of \<open>cool\<close>,
  \<open>heat\<close>, \<open>auto\<close> forth and back gives the string again.
\<close>

theorem mode_mapping:
  "ecobeeToThermostatMode ''cool'' = Cool
   \<and> ecobeeToThermostatMode ''heat'' = Heat
   \<and> ecobeeToThermostatMode ''auto'' = HeatCool
   \<and> ecobeeToThermostatMode ''auxHeatOnly'' = Off
   \<and> (x \<notin> {''cool'', ''heat'', ''auto''} \<longrightarrow> ecobeeToThermostatMode x = Off)
   \<and> thermostatModeToEcobee HeatCool = ''auto''
   \<and> (y \<in> {''cool'', ''heat'', ''auto''} \<longrightarrow>
        thermostatModeToEcobee (ecobeeToThermostatMode y) = y)"
  by (auto simp: ecobeeToThermostatMode_def)

theorem mode_mapping_witness:
  "''off'' \<notin> {''cool'', ''heat'', ''auto''} \<and> ecobeeToThermostatMode ''off'' = Off
   \<and> ''auto'' \<in> {''cool'', ''heat'', ''auto''}
   \<and> thermostatModeToEcobee (ecobeeToThermostatMode ''auto'') = ''auto''"
  using mode_mapping [of "''off''" "''auto''"] by simp

text \<open>
  C7. The air quality assigned for a score \<open>v\<close>: \<open>Excellent\<close> below 51, \<open>Good\<close> from 51
  and below 101, \<open>Fair\<close> from 101 and below 151, \<open>Poor\<close> from 151 and below 301 (two
  buckets of the vendor, collapsed), \<open>Inferior\<close> from 301 and below 501, \<open>Unknown\<close> from
  501 on and for a missing score; 50 is \<open>Excellent\<close>, 100 \<open>Good\<close>, 101 \<open>Fair\<close>, 500
  \<open>Inferior\<close> and 501 \<open>Unknown\<close>.
\<close>

theorem aq_bucketing:
  "(v < 51 \<longrightarrow> airQuality (setAirQualityFromAQScore (Some v) d) = Some Excellent)
   \<and> (51 \<le> v \<and> v < 101 \<longrightarrow> airQuality (setAirQualityFromAQScore (Some v) d) = Some Good)
   \<and> (101 \<le> v \<and> v < 151 \<longrightarrow> airQuality (setAirQualityFromAQScore (Some v) d) = Some Fair)
   \<and> (151 \<le> v \<and> v < 201 \<longrightarrow> airQuality (setAirQualityFromAQScore (Some v) d) = Some Poor)
   \<and> (201 \<le> v \<and> v < 301 \<longrightarrow> airQuality (setAirQualityFromAQScore (Some v) d) = Some Poor)
   \<and> (301 \<le> v \<and> v < 501 \<longrightarrow> airQuality (setAirQualityFromAQScore (Some v) d) = Some Inferior)
   \<and> (501 \<le> v \<longrightarrow> airQuality (setAirQualityFromAQScore (Some v) d) = Some Unknown)
   \<and> airQuality (setAirQualityFromAQScore None d) = Some Unknown
   \<and> airQuality (setAirQualityFromAQScore (Some 50) d) = Some Excellent
   \<and> airQuality (setAirQualityFromAQScore (Some 100) d) = Some Good
   \<and> airQuality (setAirQualityFromAQScore (Some 101) d) = Some Fair
   \<and> airQuality (setAirQualityFromAQScore (Some 500) d) = Some Inferior
   \<and> airQuality (setAirQualityFromAQScore (Some 501) d) = Some Unknown"
  by (simp add: setAirQualityFromAQScore_def aqBucket_def js_lt_def)

theorem aq_bucketing_witness:
  "airQuality (setAirQualityFromAQScore (Some (101 / 2)) (new_thermostat ''t1'')) = Some Excellent
   \<and> airQuality (setAirQualityFromAQScore (Some 51) (new_thermostat ''t1'')) = Some Good
   \<and> airQuality (setAirQualityFromAQScore (Some 150) (new_thermostat ''t1'')) = Some Fair
   \<and> airQuality (setAirQualityFromAQScore (Some 200) (new_thermostat ''t1'')) = Some Poor
   \<and> airQuality (setAirQualityFromAQScore (Some 300) (new_thermostat ''t1'')) = Some Poor
   \<and> airQuality (setAirQualityFromAQScore (Some 301) (new_thermostat ''t1'')) = Some Inferior
   \<and> airQuality (setAirQualityFromAQScore (Some 1000) (new_thermostat ''t1'')) = Some Unknown"
  using aq_bucketing [of "101 / 2" "new_thermostat ''t1''"]
    aq_bucketing [of 51 "new_thermostat ''t1''"]
    aq_bucketing [of 150 "new_thermostat ''t1''"]
    aq_bucketing [of 200 "new_thermostat ''t1''"]
    aq_bucketing [of 300 "new_thermostat ''t1''"]
    aq_bucketing [of 301 "new_thermostat ''t1''"]
    aq_bucketing [of 1000 "new_thermostat ''t1''"]
  by simp

subsection \<open>The temperature round trip\<close>

text \<open>The binary64 rounding is within \<open>10^(-8)\<close> of its argument up to magnitude \<open>10^7\<close>.\<close>

lemma bit_length_nonneg: "0 \<le> bit_length n"
proof (induction n rule: bit_length.induct)
  case (1 n)
  then show ?case by (subst bit_length.simps) simp
qed

lemma bit_length_le: "0 < n \<Longrightarrow> 2 powi (bit_length n - 1) \<le> (of_int n :: rat)"
proof (induction n rule: bit_length.induct)
  case (1 n)
  show ?case
  proof (cases "n div 2 \<le> 0")
    case True
    with 1(2) have "n = 1" by presburger
    then show ?thesis by (simp add: bit_length.simps)
  next
    case False
    then have pos: "0 < n div 2" by simp
    with 1 have IH: "2 powi (bit_length (n div 2) - 1) \<le> (of_int (n div 2) :: rat)" by simp
    have "bit_length n = 1 + bit_length (n div 2)"
      using 1(2) by (subst bit_length.simps) simp
    then have "(2::rat) powi (bit_length n - 1) = 2 * 2 powi (bit_length (n div 2) - 1)"
      by (simp add: power_int_diff)
    also have "\<dots> \<le> 2 * of_int (n div 2)" using IH by simp
    also have "\<dots> = of_int (2 * (n div 2))" by simp
    also have "\<dots> \<le> of_int n" by (subst of_int_le_iff) presburger
    finally show ?thesis .
  qed
qed


lemma round_half_even_error: "\<bar>of_int (round_half_even y) - y\<bar> \<le> 1 / 2"
proof -
  have "of_int \<lfloor>y\<rfloor> \<le> y" "y < of_int \<lfloor>y\<rfloor> + 1" by linarith+
  then show ?thesis
    by (auto simp: round_half_even_def Let_def)
qed

lemma binary_exponent_le:
  assumes "\<bar>x\<bar> \<le> 10 ^ 7"
  shows "binary_exponent x \<le> 23"
proof (cases "1 \<le> \<bar>x\<bar>")
  case False
  then show ?thesis
    using bit_length_nonneg [of "\<lceil>1 / \<bar>x\<bar>\<rceil> - 1"] by (simp add: binary_exponent_def)
next
  case True
  let ?n = "\<lfloor>\<bar>x\<bar>\<rfloor>"
  from True have pos: "0 < ?n" by simp
  have "2 powi (bit_length ?n - 1) \<le> (of_int ?n :: rat)" by (rule bit_length_le [OF pos])
  also have "\<dots> \<le> \<bar>x\<bar>" by simp
  also have "\<dots> < 2 powi 24" using assms by simp
  finally have "(2::rat) powi (bit_length ?n - 1) < 2 powi 24" .
  then have "bit_length ?n - 1 < 24"
    by (rule power_int_le_imp_less_exp [rotated]) simp_all
  with True show ?thesis by (simp add: binary_exponent_def)
qed

lemma b64_round_accuracy:
  assumes "\<bar>x\<bar> \<le> 10 ^ 7"
  shows "\<bar>b64_round x - x\<bar> \<le> 1 / 10 ^ 8"
proof (cases "x = 0")
  case True
  then show ?thesis by (simp add: b64_round_def)
next
  case False
  define e where "e = max (binary_exponent x) (- 1022)"
  define q :: rat where "q = 2 powi (e - 52)"
  have q0: "0 < q" by (simp add: q_def)
  have "e \<le> 23" using binary_exponent_le [OF assms] by (simp add: e_def)
  then have "q \<le> 2 powi (- 29)"
    unfolding q_def by (intro power_int_increasing) simp_all
  also have "\<dots> \<le> 2 / 10 ^ 8" by (simp add: power_int_minus)
  finally have q: "q \<le> 2 / 10 ^ 8" .
  have b: "b64_round x = of_int (round_half_even (x / q)) * q"
    using False by (simp add: b64_round_def Let_def e_def q_def)
  have "b64_round x - x = (of_int (round_half_even (x / q)) - x / q) * q"
    using q0 by (simp add: b field_simps)
  then have "\<bar>b64_round x - x\<bar> = \<bar>of_int (round_half_even (x / q)) - x / q\<bar> * q"
    using q0 by (simp add: abs_mult)
  also have "\<dots> \<le> 1 / 2 * q"
    using round_half_even_error [of "x / q"] q0 by (intro mult_right_mono) simp_all
  also have "\<dots> \<le> 1 / 10 ^ 8" using q by simp
  finally show ?thesis .
qed

text \<open>Reading back the text of a number.\<close>

lemma digit_value_digit_char: "n < 10 \<Longrightarrow> digit_value (digit_char n) = Some n"
  by (simp add: digit_value_def digit_char_def Let_def)

lemma digits_value_snoc:
  "digits_value acc (cs @ [c]) =
     (case digits_value acc cs of
        None \<Rightarrow> None
      | Some v \<Rightarrow> (case digit_value c of None \<Rightarrow> None | Some w \<Rightarrow> Some (10 * v + w)))"
  by (induction cs arbitrary: acc) (simp_all split: option.splits)

lemma digits_value_nat_toString: "digits_value 0 (nat_toString n) = Some n"
proof (induction n rule: nat_toString.induct)
  case (1 n)
  show ?case
  proof (cases "n < 10")
    case True
    then show ?thesis
      by (subst nat_toString.simps) (simp add: digit_value_digit_char)
  next
    case False
    with 1 have "digits_value 0 (nat_toString (n div 10)) = Some (n div 10)" by simp
    with False show ?thesis
      by (subst nat_toString.simps) (simp add: digits_value_snoc digit_value_digit_char)
  qed
qed

lemma nat_toString_not_Nil: "nat_toString n \<noteq> []"
  by (subst nat_toString.simps) simp

lemma digits_value_minus: "digits_value acc (CHR ''-'' # cs) = None"
  by (simp add: digit_value_def)

lemma decimal_value_nat_toString: "decimal_value (nat_toString n) = Some (int n)"
proof (cases "nat_toString n")
  case Nil
  with nat_toString_not_Nil show ?thesis by blast
next
  case (Cons c cs)
  have "c \<noteq> CHR ''-''"
  proof
    assume "c = CHR ''-''"
    with Cons digits_value_nat_toString [of n] digits_value_minus [of 0 cs] show False by simp
  qed
  with Cons digits_value_nat_toString [of n] show ?thesis
    by (simp add: decimal_value_def)
qed

lemma decimal_value_minus_nat_toString:
  "decimal_value (''-'' @ nat_toString n) = Some (- int n)"
  using nat_toString_not_Nil [of n] digits_value_nat_toString [of n]
  by (simp add: decimal_value_def)

lemma toFixed_value_error:
  assumes "\<bar>x\<bar> < 10 ^ 21"
  shows "\<bar>toFixed_value x 2 - x\<bar> \<le> 1 / 200"
proof -
  define n where "n = \<lfloor>\<bar>x\<bar> * 100 + 1 / 2\<rfloor>"
  have n0: "0 \<le> n" unfolding n_def by simp
  have "of_int n \<le> \<bar>x\<bar> * 100 + 1 / 2" "\<bar>x\<bar> * 100 + 1 / 2 < of_int n + 1"
    unfolding n_def by linarith+
  then have e: "\<bar>of_int n / 100 - \<bar>x\<bar>\<bar> \<le> 1 / 200" by linarith
  have v: "toFixed_value x 2 = (if x < 0 then - 1 else 1) * (of_int n / 100)"
    using assms n0 by (simp add: toFixed_value_def toFixed_int_def n_def)
  show ?thesis
  proof (cases "x < 0")
    case True
    with v have "toFixed_value x 2 = - (of_int n / 100)" by simp
    with e True show ?thesis by linarith
  next
    case False
    with v have "toFixed_value x 2 = of_int n / 100" by simp
    with e False show ?thesis by linarith
  qed
qed

lemma toFixed_integer:
  assumes "\<bar>y - of_int t\<bar> < 1 / 2" and "\<bar>y\<bar> < 10 ^ 21"
  shows "decimal_value (toFixed R y 0) = Some t"
proof -
  have "\<bar>\<bar>y\<bar> - \<bar>of_int t\<bar>\<bar> < 1 / 2" using assms(1) by linarith
  moreover have "(of_int \<bar>t\<bar> :: rat) = \<bar>of_int t\<bar>" by simp
  ultimately have "of_int \<bar>t\<bar> \<le> \<bar>y\<bar> + 1 / 2" "\<bar>y\<bar> + 1 / 2 < of_int \<bar>t\<bar> + 1"
    by linarith+
  then have "\<lfloor>\<bar>y\<bar> + 1 / 2\<rfloor> = \<bar>t\<bar>" by (rule floor_unique)
  then have n: "toFixed_int y 0 = nat \<bar>t\<bar>" by (simp add: toFixed_int_def)
  have s: "toFixed R y 0 = (if y < 0 then ''-'' else '''') @ nat_toString (nat \<bar>t\<bar>)"
    using assms(2) n by (simp add: toFixed_def Let_def)
  show ?thesis
  proof (cases "y < 0")
    case True
    with assms(1) have "of_int t < (1 :: rat)" by linarith
    then have "of_int t < (of_int 1 :: rat)" by (simp only: of_int_1)
    then have "t < 1" by (simp only: of_int_less_iff)
    then have "t \<le> 0" by simp
    with True s decimal_value_minus_nat_toString [of "nat \<bar>t\<bar>"] show ?thesis by simp
  next
    case False
    with assms(1) have "(- 1 :: rat) < of_int t" by linarith
    then have "(of_int (- 1) :: rat) < of_int t" by (simp only: of_int_minus of_int_1)
    then have "- 1 < t" by (simp only: of_int_less_iff)
    then have "0 \<le> t" by simp
    with False s decimal_value_nat_toString [of "nat \<bar>t\<bar>"] show ?thesis by simp
  qed
qed

text \<open>
  The round trip under any rounding of that accuracy: the errors of the seven rounded
  operations and of the rounding to two decimals add up to less than half a unit.
\<close>

lemma product_error:
  fixes u u0 v v0 :: rat
  assumes "\<bar>u - u0\<bar> \<le> du" and "\<bar>v - v0\<bar> \<le> dv" and "\<bar>v\<bar> \<le> V" and "\<bar>u0\<bar> \<le> U"
  shows "\<bar>u * v - u0 * v0\<bar> \<le> du * V + U * dv"
proof -
  have du: "0 \<le> du" and dv: "0 \<le> dv" using assms(1,2) by linarith+
  have "u * v - u0 * v0 = (u - u0) * v + u0 * (v - v0)" by (simp add: algebra_simps)
  then have "\<bar>u * v - u0 * v0\<bar> \<le> \<bar>(u - u0) * v\<bar> + \<bar>u0 * (v - v0)\<bar>"
    by (simp only: abs_triangle_ineq)
  also have "\<dots> = \<bar>u - u0\<bar> * \<bar>v\<bar> + \<bar>u0\<bar> * \<bar>v - v0\<bar>" by (simp only: abs_mult)
  also have "\<dots> \<le> du * V + U * dv"
    using assms du dv by (intro add_mono mult_mono) simp_all
  finally show ?thesis .
qed

lemma round_trip_accurate:
  fixes R :: js_runtime and t :: int
  assumes acc: "\<And>x. \<bar>x\<bar> \<le> 10 ^ 7 \<Longrightarrow> \<bar>fp_round R x - x\<bar> \<le> 1 / 10 ^ 8"
    and t: "\<bar>t\<bar> \<le> 10 ^ 6"
  shows "decimal_value (celsiusToEcobeeInt R (ecobeeIntToCelsius R (of_int t))) = Some t"
proof -
  define rnd where "rnd = fp_round R"
  define T :: rat where "T = of_int t"
  define a where "a = T / 10"
  define f where "f = rnd a"
  define g where "g = rnd (f - 32)"
  define k where "k = rnd (5 / 9)"
  define c0 where "c0 = 5 / 9 * (a - 32)"
  define c where "c = rnd (k * g)"
  define x where "x = rnd (toFixed_value c 2)"
  define k2 where "k2 = rnd (18 / 10)"
  define m where "m = rnd (x * k2)"
  define s where "s = rnd (m + 32)"
  define y where "y = rnd (s * 10)"
  have r: "\<bar>rnd z - z\<bar> \<le> 1 / 100000000" if "\<bar>z\<bar> \<le> 10000000" for z
    using acc [of z] that by (simp add: rnd_def)
  have "(of_int \<bar>t\<bar> :: rat) \<le> of_int (10 ^ 6)" using t by (simp only: of_int_le_iff)
  then have T: "\<bar>T\<bar> \<le> 1000000" by (simp add: T_def)
  then have a: "\<bar>a\<bar> \<le> 100000" by (simp add: a_def)
  have hf: "\<bar>f - a\<bar> \<le> 1 / 100000000" unfolding f_def using a by (intro r) linarith
  have "\<bar>g - (f - 32)\<bar> \<le> 1 / 100000000" unfolding g_def using a hf by (intro r) linarith
  with hf have hg: "\<bar>g - (a - 32)\<bar> \<le> 2 / 100000000" by linarith
  with a have gb: "\<bar>g\<bar> \<le> 100033" by linarith
  have hk: "\<bar>k - 5 / 9\<bar> \<le> 1 / 100000000" unfolding k_def by (intro r) simp
  have "\<bar>k * g - 5 / 9 * (a - 32)\<bar> \<le> 1 / 100000000 * 100033 + 5 / 9 * (2 / 100000000)"
    by (rule product_error [OF hk hg gb]) simp
  then have hp: "\<bar>k * g - c0\<bar> \<le> 11 / 10000" by (simp add: c0_def)
  have "9 * c0 = 5 * a - 160" by (simp add: c0_def)
  with a have c0b: "\<bar>c0\<bar> \<le> 55574" by linarith
  have "\<bar>c - k * g\<bar> \<le> 1 / 100000000" unfolding c_def using hp c0b by (intro r) linarith
  with hp have hc: "\<bar>c - c0\<bar> \<le> 12 / 10000" by linarith
  with c0b have cb: "\<bar>c\<bar> \<le> 55575" by linarith
  also have "(55575 :: rat) < 10 ^ 21" by simp
  finally have "\<bar>c\<bar> < 10 ^ 21" .
  then have hv: "\<bar>toFixed_value c 2 - c\<bar> \<le> 1 / 200" by (rule toFixed_value_error)
  have "\<bar>x - toFixed_value c 2\<bar> \<le> 1 / 100000000" unfolding x_def using hv cb by (intro r) linarith
  with hv hc have hx: "\<bar>x - c0\<bar> \<le> 63 / 10000" by linarith
  have hk2: "\<bar>k2 - 9 / 5\<bar> \<le> 1 / 100000000" unfolding k2_def using r [of "18 / 10"] by simp
  then have k2b: "\<bar>k2\<bar> \<le> 2" by linarith
  have c0a: "c0 * (9 / 5) = a - 32" by (simp add: c0_def)
  have "\<bar>x * k2 - c0 * (9 / 5)\<bar> \<le> 63 / 10000 * 2 + 55574 * (1 / 100000000)"
    by (rule product_error [OF hx hk2 k2b c0b])
  also have "(63 / 10000 * 2 + 55574 * (1 / 100000000) :: rat) \<le> 132 / 10000" by simp
  finally have hxk: "\<bar>x * k2 - (a - 32)\<bar> \<le> 132 / 10000" unfolding c0a .
  have "\<bar>m - x * k2\<bar> \<le> 1 / 100000000" unfolding m_def using hxk a by (intro r) linarith
  with hxk have hm: "\<bar>m + 32 - a\<bar> \<le> 133 / 10000" by linarith
  have "\<bar>s - (m + 32)\<bar> \<le> 1 / 100000000" unfolding s_def using hm a by (intro r) linarith
  with hm have hs: "\<bar>s - a\<bar> \<le> 134 / 10000" by linarith
  moreover have "T = a * 10" by (simp add: a_def)
  ultimately have hs10: "\<bar>s * 10 - T\<bar> \<le> 134 / 1000" by linarith
  have "\<bar>y - s * 10\<bar> \<le> 1 / 100000000" unfolding y_def using hs10 T by (intro r) linarith
  with hs10 have hy: "\<bar>y - T\<bar> < 1 / 2" by linarith
  with T have "\<bar>y\<bar> \<le> 1000001" by linarith
  also have "(1000001 :: rat) < 10 ^ 21" by simp
  finally have "\<bar>y\<bar> < 10 ^ 21" .
  with hy have "decimal_value (toFixed R y 0) = Some t"
    unfolding T_def by (intro toFixed_integer)
  moreover have "celsiusToEcobeeInt R (ecobeeIntToCelsius R (of_int t)) = toFixed R y 0"
    by (simp add: celsiusToEcobeeInt_def ecobeeIntToCelsius_def Let_def y_def s_def m_def k2_def
        x_def c_def k_def g_def f_def a_def T_def rnd_def)
  ultimately show ?thesis by simp
qed

text \<open>
  C5. For every raw vendor temperature \<open>t\<close>, an integer number of tenths of a degree
  Fahrenheit from \<open>-10^6\<close> to \<open>10^6\<close> (100000 degrees either way), the round trip
  \<open>celsiusToEcobeeInt(ecobeeIntToCelsius(t))\<close>, computed in binary64 arithmetic, is the
  decimal text of a number within 1 unit of \<open>t\<close>; that number is \<open>t\<close> itself.
\<close>

theorem temperature_round_trip:
  assumes "\<bar>t\<bar> \<le> 10 ^ 6"
  shows "decimal_value (celsiusToEcobeeInt (binary64_runtime nts)
            (ecobeeIntToCelsius (binary64_runtime nts) (of_int t))) = Some t
         \<and> (\<exists>v. decimal_value (celsiusToEcobeeInt (binary64_runtime nts)
                    (ecobeeIntToCelsius (binary64_runtime nts) (of_int t))) = Some v
                \<and> \<bar>v - t\<bar> \<le> 1)"
proof -
  have fp: "fp_round (binary64_runtime nts) = b64_round"
    by (simp add: binary64_runtime_def)
  have "\<bar>fp_round (binary64_runtime nts) x - x\<bar> \<le> 1 / 10 ^ 8" if "\<bar>x\<bar> \<le> 10 ^ 7" for x
    unfolding fp using that by (rule b64_round_accuracy)
  then have "decimal_value (celsiusToEcobeeInt (binary64_runtime nts)
            (ecobeeIntToCelsius (binary64_runtime nts) (of_int t))) = Some t"
    using assms by (rule round_trip_accurate)
  then show ?thesis by simp
qed

theorem temperature_round_trip_witness:
  "\<bar>711 :: int\<bar> \<le> 10 ^ 6
   \<and> decimal_value (celsiusToEcobeeInt (binary64_runtime (number_toString exact_runtime))
         (ecobeeIntToCelsius (binary64_runtime (number_toString exact_runtime)) (of_int 711))) = Some 711"
proof -
  have h: "\<bar>711 :: int\<bar> \<le> 10 ^ 6" by simp
  from temperature_round_trip [OF h, of "number_toString exact_runtime"] h show ?thesis by simp
qed

subsection \<open>Equipment status and revision list\<close>

lemma toLowerCase_sublist:
  "sublist t s \<Longrightarrow> sublist (toLowerCase t) (toLowerCase s)"
  unfolding toLowerCase_def by (rule map_mono_sublist)

lemma toLowerCase_dehumidifier: "toLowerCase ''dehumidifier'' = ''dehumidifier''"
  by (simp add: toLowerCase_def lower_char_def)

lemma includes_humidifier:
  assumes "str_includes s ''dehumidifier''"
  shows "str_includes (toLowerCase s) ''humidifier''"
proof -
  from assms have "sublist ''dehumidifier'' (toLowerCase s)"
    using toLowerCase_sublist [of "''dehumidifier''" s]
    by (simp only: str_includes_def toLowerCase_dehumidifier)
  moreover have "sublist ''humidifier'' ''dehumidifier''"
    by (simp add: sublist_code)
  ultimately show ?thesis
    unfolding str_includes_def by (rule sublist_order.order_trans [rotated])
qed

lemma updateEquipmentStatus_humidity:
  "h_activeMode (humiditySetting (updateEquipmentStatus es d)) =
     Some (if str_includes (toLowerCase es) ''humidifier'' then Humidify else HOff)"
  by (simp add: updateEquipmentStatus_def Let_def console_log_def)

text \<open>
  C10. For every equipment status that contains \<open>dehumidifier\<close>,
  \<open>_updateEquipmentStatus\<close> sets the active humidity mode to \<open>Humidify\<close>; the status
  \<open>dehumidifier\<close> and the status \<open>humidifier\<close> give the same active humidity mode.
\<close>

theorem dehumidifier_sets_humidify:
  "(str_includes es ''dehumidifier'' \<longrightarrow>
      h_activeMode (humiditySetting (updateEquipmentStatus es d)) = Some Humidify)
   \<and> h_activeMode (humiditySetting (updateEquipmentStatus ''dehumidifier'' d)) =
       h_activeMode (humiditySetting (updateEquipmentStatus ''humidifier'' d))"
proof (intro conjI impI)
  assume "str_includes es ''dehumidifier''"
  then show "h_activeMode (humiditySetting (updateEquipmentStatus es d)) = Some Humidify"
    by (simp add: updateEquipmentStatus_humidity includes_humidifier)
next
  have "str_includes (toLowerCase ''dehumidifier'') ''humidifier''"
    by (simp add: toLowerCase_dehumidifier str_includes_def sublist_code)
  moreover have "str_includes (toLowerCase ''humidifier'') ''humidifier''"
    by (simp add: toLowerCase_def lower_char_def str_includes_def)
  ultimately show "h_activeMode (humiditySetting (updateEquipmentStatus ''dehumidifier'' d)) =
       h_activeMode (humiditySetting (updateEquipmentStatus ''humidifier'' d))"
    by (simp only: updateEquipmentStatus_humidity if_True)
qed

theorem dehumidifier_sets_humidify_witness:
  "str_includes ''fan,dehumidifier'' ''dehumidifier''
   \<and> h_activeMode (humiditySetting (updateEquipmentStatus ''fan,dehumidifier'' (new_thermostat ''t1'')))
       = Some Humidify"
proof -
  have h: "str_includes ''fan,dehumidifier'' ''dehumidifier''"
    by (simp add: str_includes_def sublist_code)
  with dehumidifier_sets_humidify [of "''fan,dehumidifier''" "new_thermostat ''t1''"]
  show ?thesis by simp
qed

lemma revisionLoop_fst:
  "fst (revisionLoop i n ol d) \<longleftrightarrow> (\<exists>j. i \<le> j \<and> j < length listItems \<and> index n j \<noteq> index ol j)"
proof (induction i n ol d rule: revisionLoop.induct)
  case (1 i newList oldList d)
  show ?case
  proof (cases "i < length listItems")
    case False
    then show ?thesis by (subst revisionLoop.simps) auto
  next
    case True
    show ?thesis
    proof (cases "index newList i \<noteq> index oldList i")
      case True
      with \<open>i < length listItems\<close> show ?thesis
        by (subst revisionLoop.simps) auto
    next
      case False
      with \<open>i < length listItems\<close> 1 have
        "fst (revisionLoop i newList oldList d) =
           (\<exists>j\<ge>i + 1. j < length listItems \<and> index newList j \<noteq> index oldList j)"
        by (subst revisionLoop.simps) simp
      also have "\<dots> = (\<exists>j\<ge>i. j < length listItems \<and> index newList j \<noteq> index oldList j)"
        using False by (metis Suc_eq_plus1 Suc_leD Suc_leI le_neq_implies_less)
      finally show ?thesis .
    qed
  qed
qed

lemma revisionLoop_revisionList:
  "revisionList (snd (revisionLoop i n ol d)) = revisionList d"
proof (induction i n ol d rule: revisionLoop.induct)
  case (1 i newList oldList d)
  then show ?case
    by (subst revisionLoop.simps) (simp add: console_log_def)
qed

lemma indices_3_to_6:
  "(\<exists>j. 3 \<le> j \<and> j < length listItems \<and> P j) \<longleftrightarrow> (P 3 \<or> P 4 \<or> P 5 \<or> P (6::nat))"
proof
  assume "\<exists>j. 3 \<le> j \<and> j < length listItems \<and> P j"
  then obtain j where j: "3 \<le> j" "j < 7" "P j" by (auto simp: listItems_def)
  then have "j = 3 \<or> j = 4 \<or> j = 5 \<or> j = 6" by arith
  with j show "P 3 \<or> P 4 \<or> P 5 \<or> P 6" by auto
next
  have len: "length listItems = 7" by (simp add: listItems_def)
  assume "P 3 \<or> P 4 \<or> P 5 \<or> P 6"
  then consider "P 3" | "P 4" | "P 5" | "P 6" by blast
  then show "\<exists>j. 3 \<le> j \<and> j < length listItems \<and> P j"
  proof cases
    case 1 then show ?thesis unfolding len by (intro exI [of _ 3]) simp
  next
    case 2 then show ?thesis unfolding len by (intro exI [of _ 4]) simp
  next
    case 3 then show ?thesis unfolding len by (intro exI [of _ 5]) simp
  next
    case 4 then show ?thesis unfolding len by (intro exI [of _ 6]) simp
  qed
qed

lemma reload_summary_network:
  "map_option fst (reload summary_network exact_runtime \<lparr>dev = d, provider = c\<rparr>) = Some (Inr ())"
  "map_option (length \<circ> http_log \<circ> provider \<circ> snd)
     (reload summary_network exact_runtime \<lparr>dev = d, provider = c\<rparr>)
   = Some (Suc (length (http_log c)))"
  by (simp_all add: reload_def Let_def req_first_try summary_network_def request_config_def
       reload_apply_def device0_def)

lemma refresh_summary:
  assumes "req N ''get'' ''thermostatSummary''
         (Some \<lparr>selectionType = ''thermostats'', selectionMatch = nativeId (dev s),
                includeSettings = False, includeRuntime = False, includeEquipmentStatus = True\<rparr>)
         None Undefined (provider s) = Some (Inr (SummaryResponse revisions statuses), c1)"
    and "index statuses 0 = Some status"
    and "index (split_on (CHR '':'') status) 1 = Some es"
    and "index revisions 0 = Some listStr"
  shows "refresh N R refreshInterface s =
      (let d = updateEquipmentStatus es (console_log (refreshInterface @ '' requested refresh'') (dev s))
       in if fst (updateRevisionList listStr d)
          then reload N R \<lparr>dev = snd (updateRevisionList listStr d), provider = c1\<rparr>
          else Some (Inr (), \<lparr>dev = snd (updateRevisionList listStr d), provider = c1\<rparr>))"
  using assms by (simp add: refresh_def Let_def split: prod.splits)

text \<open>
  C4. \<open>_updateRevisionList\<close> signals a change exactly when no revision list was stored
  before, or the new list (the argument split at the colons) differs from the stored
  one at index 3, 4, 5 or 6, where an index beyond the end of a list reads as
  \<open>undefined\<close>; the indices 0 to 2 play no part. The new list is stored in either case.
  \<open>refresh\<close>, once the summary has arrived, continues as a \<open>reload\<close> exactly when the
  comparison signals a change, and returns without a further request otherwise.
\<close>

theorem revision_change_detection:
  "(fst (updateRevisionList listStr d) \<longleftrightarrow>
      (case revisionList d of
         None \<Rightarrow> True
       | Some oldList \<Rightarrow>
           index (split_on (CHR '':'') listStr) 3 \<noteq> index oldList 3
           \<or> index (split_on (CHR '':'') listStr) 4 \<noteq> index oldList 4
           \<or> index (split_on (CHR '':'') listStr) 5 \<noteq> index oldList 5
           \<or> index (split_on (CHR '':'') listStr) 6 \<noteq> index oldList 6))
   \<and> revisionList (snd (updateRevisionList listStr d)) = Some (split_on (CHR '':'') listStr)
   \<and> (req N ''get'' ''thermostatSummary''
         (Some \<lparr>selectionType = ''thermostats'', selectionMatch = nativeId (dev s),
                includeSettings = False, includeRuntime = False, includeEquipmentStatus = True\<rparr>)
         None Undefined (provider s) = Some (Inr (SummaryResponse revisions statuses), c1)
       \<and> index statuses 0 = Some status
       \<and> index (split_on (CHR '':'') status) 1 = Some es
       \<and> index revisions 0 = Some listStr
       \<and> d = updateEquipmentStatus es (console_log (refreshInterface @ '' requested refresh'') (dev s))
       \<longrightarrow>
       refresh N R refreshInterface s =
         (if fst (updateRevisionList listStr d)
          then reload N R \<lparr>dev = snd (updateRevisionList listStr d), provider = c1\<rparr>
          else Some (Inr (), \<lparr>dev = snd (updateRevisionList listStr d), provider = c1\<rparr>)))"
proof (intro conjI impI)
  show "fst (updateRevisionList listStr d) \<longleftrightarrow>
      (case revisionList d of
         None \<Rightarrow> True
       | Some oldList \<Rightarrow>
           index (split_on (CHR '':'') listStr) 3 \<noteq> index oldList 3
           \<or> index (split_on (CHR '':'') listStr) 4 \<noteq> index oldList 4
           \<or> index (split_on (CHR '':'') listStr) 5 \<noteq> index oldList 5
           \<or> index (split_on (CHR '':'') listStr) 6 \<noteq> index oldList 6)"
    by (cases "revisionList d")
       (simp_all add: updateRevisionList_def Let_def revisionLoop_fst
          indices_3_to_6 [where P = "\<lambda>j. index (split_on (CHR '':'') listStr) j \<noteq> index _ j"])
  show "revisionList (snd (updateRevisionList listStr d)) = Some (split_on (CHR '':'') listStr)"
    by (cases "revisionList d")
       (simp_all add: updateRevisionList_def Let_def revisionLoop_revisionList)
next
  assume "req N ''get'' ''thermostatSummary''
         (Some \<lparr>selectionType = ''thermostats'', selectionMatch = nativeId (dev s),
                includeSettings = False, includeRuntime = False, includeEquipmentStatus = True\<rparr>)
         None Undefined (provider s) = Some (Inr (SummaryResponse revisions statuses), c1)
       \<and> index statuses 0 = Some status
       \<and> index (split_on (CHR '':'') status) 1 = Some es
       \<and> index revisions 0 = Some listStr
       \<and> d = updateEquipmentStatus es (console_log (refreshInterface @ '' requested refresh'') (dev s))"
  then show "refresh N R refreshInterface s =
         (if fst (updateRevisionList listStr d)
          then reload N R \<lparr>dev = snd (updateRevisionList listStr d), provider = c1\<rparr>
          else Some (Inr (), \<lparr>dev = snd (updateRevisionList listStr d), provider = c1\<rparr>))"
    using refresh_summary [of N s revisions statuses c1 status es listStr R refreshInterface]
    by (simp add: Let_def)
qed


theorem revision_change_detection_witness:
  "fst (updateRevisionList ''a:b:c:1:2:3:4'' (new_thermostat ''t1''))
   \<and> \<not> fst (updateRevisionList ''x:y:z:1:2:3:4''
            ((new_thermostat ''t1'')\<lparr>revisionList := Some [''a'', ''b'', ''c'', ''1'', ''2'', ''3'', ''4'']\<rparr>))
   \<and> fst (updateRevisionList ''a:b:c:1:2:9:4''
            ((new_thermostat ''t1'')\<lparr>revisionList := Some [''a'', ''b'', ''c'', ''1'', ''2'', ''3'', ''4'']\<rparr>))
   \<and> map_option fst (refresh summary_network exact_runtime ''poll'' system0) = Some (Inr ())
   \<and> map_option (length \<circ> http_log \<circ> provider \<circ> snd)
        (refresh summary_network exact_runtime ''poll'' system0) = Some 2
   \<and> map_option fst (refresh summary_network exact_runtime ''poll'' system1) = Some (Inr ())
   \<and> map_option (length \<circ> http_log \<circ> provider \<circ> snd)
        (refresh summary_network exact_runtime ''poll'' system1) = Some 1"
proof -
  let ?stored = "(new_thermostat ''t1'')\<lparr>revisionList := Some [''a'', ''b'', ''c'', ''1'', ''2'', ''3'', ''4'']\<rparr>"
  have pure: "fst (updateRevisionList ''a:b:c:1:2:3:4'' (new_thermostat ''t1''))"
    "\<not> fst (updateRevisionList ''x:y:z:1:2:3:4'' ?stored)"
    "fst (updateRevisionList ''a:b:c:1:2:9:4'' ?stored)"
    using revision_change_detection [where listStr = "''a:b:c:1:2:3:4''" and d = "new_thermostat ''t1''",
        THEN conjunct1]
      revision_change_detection [where listStr = "''x:y:z:1:2:3:4''" and d = ?stored, THEN conjunct1]
      revision_change_detection [where listStr = "''a:b:c:1:2:9:4''" and d = ?stored, THEN conjunct1]
    by (simp_all add: new_thermostat_def split_on_def eval_nat_numeral)
  let ?json = "\<lambda>s. \<lparr>selectionType = ''thermostats'', selectionMatch = nativeId (dev s),
                includeSettings = False, includeRuntime = False, includeEquipmentStatus = True\<rparr>"
  let ?c1 = "\<lambda>s. (provider s)\<lparr>http_log := http_log (provider s) @
      [ApiCall (request_config ''get'' ''thermostatSummary'' (Some (?json s)) None (provider s))]\<rparr>"
  let ?d = "\<lambda>s. updateEquipmentStatus ''fan,auxHeat1'' (console_log (''poll'' @ '' requested refresh'') (dev s))"
  have h: "req summary_network ''get'' ''thermostatSummary'' (Some (?json s)) None Undefined (provider s)
      = Some (Inr (SummaryResponse [''t1:Home:true:1:2:3:4''] [''t1:fan,auxHeat1'']), ?c1 s)" for s
    by (rule req_first_try) (simp add: summary_network_def request_config_def)
  have i: "index [''t1:fan,auxHeat1''] 0 = Some ''t1:fan,auxHeat1''"
    "index (split_on (CHR '':'') ''t1:fan,auxHeat1'') 1 = Some ''fan,auxHeat1''"
    "index [''t1:Home:true:1:2:3:4''] 0 = Some ''t1:Home:true:1:2:3:4''"
    by (simp_all add: split_on_def)
  have rl: "revisionList (updateEquipmentStatus es (console_log m d)) = revisionList d" for es m d
    by (simp add: updateEquipmentStatus_def console_log_def Let_def)
  have chg0: "fst (updateRevisionList ''t1:Home:true:1:2:3:4'' (?d system0))"
    using revision_change_detection [where listStr = "''t1:Home:true:1:2:3:4''" and d = "?d system0",
        THEN conjunct1]
    by (simp add: rl system0_def new_thermostat_def)
  have chg1: "\<not> fst (updateRevisionList ''t1:Home:true:1:2:3:4'' (?d system1))"
    using revision_change_detection [where listStr = "''t1:Home:true:1:2:3:4''" and d = "?d system1",
        THEN conjunct1]
    by (simp add: rl system1_def split_on_def eval_nat_numeral)
  have l0: "http_log (provider system0) = []" "http_log (provider system1) = []"
    by (simp_all add: system0_def system1_def controller0_def)
  from h [of system0] i chg0
    revision_change_detection [where listStr = "''t1:Home:true:1:2:3:4''" and d = "?d system0"
      and N = summary_network and s = system0 and revisions = "[''t1:Home:true:1:2:3:4'']"
      and statuses = "[''t1:fan,auxHeat1'']" and ?c1.0 = "?c1 system0" and status = "''t1:fan,auxHeat1''"
      and es = "''fan,auxHeat1''" and refreshInterface = "''poll''" and R = exact_runtime]
  have r0: "refresh summary_network exact_runtime ''poll'' system0 =
      reload summary_network exact_runtime
        \<lparr>dev = snd (updateRevisionList ''t1:Home:true:1:2:3:4'' (?d system0)), provider = ?c1 system0\<rparr>"
    by simp
  from h [of system1] i chg1
    revision_change_detection [where listStr = "''t1:Home:true:1:2:3:4''" and d = "?d system1"
      and N = summary_network and s = system1 and revisions = "[''t1:Home:true:1:2:3:4'']"
      and statuses = "[''t1:fan,auxHeat1'']" and ?c1.0 = "?c1 system1" and status = "''t1:fan,auxHeat1''"
      and es = "''fan,auxHeat1''" and refreshInterface = "''poll''" and R = exact_runtime]
  have r1: "refresh summary_network exact_runtime ''poll'' system1 =
      Some (Inr (), \<lparr>dev = snd (updateRevisionList ''t1:Home:true:1:2:3:4'' (?d system1)),
                      provider = ?c1 system1\<rparr>)"
    by simp
  from pure show ?thesis
    by (simp add: r0 r1 reload_summary_network l0)
qed

subsection \<open>Tokens\<close>

text \<open>
  C8. When the token exchange of \<open>getToken\<close> or of \<open>refreshToken\<close> is rejected, the call
  raises the rejection and leaves the access token in memory and the stored settings,
  the refresh token among them, as they were; when it succeeds, the access token is
  replaced and the new refresh token is stored.
\<close>

theorem token_exchange_atomic:
  "(token_reply N (length (http_log c)) (getToken_params c) = Inl msg \<longrightarrow>
      fst (getToken N c) = Inl (AxiosError msg)
      \<and> access_token (snd (getToken N c)) = access_token c
      \<and> storage (snd (getToken N c)) = storage c)
   \<and> (token_reply N (length (http_log c)) (refreshToken_params c) = Inl msg \<longrightarrow>
      fst (refreshToken N c) = Inl (AxiosError msg)
      \<and> access_token (snd (refreshToken N c)) = access_token c
      \<and> storage (snd (refreshToken N c)) = storage c)
   \<and> (token_reply N (length (http_log c)) (getToken_params c) = Inr tokenData \<longrightarrow>
      fst (getToken N c) = Inr ()
      \<and> access_token (snd (getToken N c)) = Some (new_access_token tokenData)
      \<and> storage (snd (getToken N c)) = (storage c)(''refresh_token'' \<mapsto> new_refresh_token tokenData))
   \<and> (token_reply N (length (http_log c)) (refreshToken_params c) = Inr tokenData \<longrightarrow>
      fst (refreshToken N c) = Inr ()
      \<and> access_token (snd (refreshToken N c)) = Some (new_access_token tokenData)
      \<and> storage (snd (refreshToken N c)) = (storage c)(''refresh_token'' \<mapsto> new_refresh_token tokenData))"
  by (simp add: getToken_def refreshToken_def axios_post_def Let_def provider_log_def)

theorem token_exchange_atomic_witness:
  "token_reply dead_network (length (http_log controller0)) (getToken_params controller0) = Inl ''timeout''
   \<and> token_reply dead_network (length (http_log controller0)) (refreshToken_params controller0) = Inl ''timeout''
   \<and> fst (getToken dead_network controller0) = Inl (AxiosError ''timeout'')
   \<and> access_token (snd (getToken dead_network controller0)) = None
   \<and> storage (snd (getToken dead_network controller0)) ''refresh_token'' = Some ''refresh0''
   \<and> fst (refreshToken dead_network controller0) = Inl (AxiosError ''timeout'')
   \<and> access_token (snd (refreshToken dead_network controller0)) = None
   \<and> storage (snd (refreshToken dead_network controller0)) ''refresh_token'' = Some ''refresh0''
   \<and> token_reply rejecting_network (length (http_log controller0)) (getToken_params controller0) = Inr token0
   \<and> token_reply rejecting_network (length (http_log controller0)) (refreshToken_params controller0) = Inr token0
   \<and> fst (getToken rejecting_network controller0) = Inr ()
   \<and> access_token (snd (getToken rejecting_network controller0)) = Some ''access1''
   \<and> storage (snd (getToken rejecting_network controller0)) ''refresh_token'' = Some ''refresh1''
   \<and> fst (refreshToken rejecting_network controller0) = Inr ()
   \<and> access_token (snd (refreshToken rejecting_network controller0)) = Some ''access1''
   \<and> storage (snd (refreshToken rejecting_network controller0)) ''refresh_token'' = Some ''refresh1''"
proof -
  have dead: "token_reply dead_network (length (http_log controller0)) (getToken_params controller0) = Inl ''timeout''"
    "token_reply dead_network (length (http_log controller0)) (refreshToken_params controller0) = Inl ''timeout''"
    by (simp_all add: dead_network_def)
  have good: "token_reply rejecting_network (length (http_log controller0)) (getToken_params controller0) = Inr token0"
    "token_reply rejecting_network (length (http_log controller0)) (refreshToken_params controller0) = Inr token0"
    by (simp_all add: rejecting_network_def)
  have c0: "access_token controller0 = None" "storage controller0 ''refresh_token'' = Some ''refresh0''"
    by (simp_all add: controller0_def)
  from dead good c0
    token_exchange_atomic [of dead_network controller0 "''timeout''" token0]
    token_exchange_atomic [of rejecting_network controller0 "''timeout''" token0]
  show ?thesis by (simp add: token0_def)
qed

subsection \<open>Discovery\<close>

lemma discover_loop_map:
  "discover_loop store apiDevices devices = devices @ map (discover_device store) apiDevices"
  by (induction apiDevices arbitrary: devices) simp_all

text \<open>
  C9. The device that discovery builds for a device of the vendor's reply: thermometer,
  humidity sensor and refresh are always among its interfaces. When the setting
  \<open>sensors_only\<close> is \<open>true\<close>, its type is \<open>Sensor\<close> and temperature setting, on/off and
  humidity setting are left out, whatever the payload says of a humidifier. Otherwise
  its type is \<open>Thermostat\<close>, temperature setting and on/off are included, and humidity
  setting is included exactly when the payload declares a humidifier. Air quality, VOC
  and CO2 are each included exactly when the runtime field is present and not negative.
\<close>

theorem discovery_interfaces:
  "{Thermometer, HumiditySensor, Refresh} \<subseteq> set (device_interfaces (discover_device store apiDevice))
   \<and> (store ''sensors_only'' = Some ''true'' \<longrightarrow>
        device_type (discover_device store apiDevice) = Sensor
        \<and> TemperatureSetting \<notin> set (device_interfaces (discover_device store apiDevice))
        \<and> OnOff \<notin> set (device_interfaces (discover_device store apiDevice))
        \<and> HumiditySetting \<notin> set (device_interfaces (discover_device store apiDevice)))
   \<and> (store ''sensors_only'' \<noteq> Some ''true'' \<longrightarrow>
        device_type (discover_device store apiDevice) = Thermostat
        \<and> TemperatureSetting \<in> set (device_interfaces (discover_device store apiDevice))
        \<and> OnOff \<in> set (device_interfaces (discover_device store apiDevice))
        \<and> (HumiditySetting \<in> set (device_interfaces (discover_device store apiDevice))
             \<longleftrightarrow> hasHumidifier (settings apiDevice)))
   \<and> (AirQualitySensor \<in> set (device_interfaces (discover_device store apiDevice))
        \<longleftrightarrow> (\<exists>v. actualAQScore (runtime apiDevice) = Some v \<and> 0 \<le> v))
   \<and> (VOCSensor \<in> set (device_interfaces (discover_device store apiDevice))
        \<longleftrightarrow> (\<exists>v. actualVOC (runtime apiDevice) = Some v \<and> 0 \<le> v))
   \<and> (CO2Sensor \<in> set (device_interfaces (discover_device store apiDevice))
        \<longleftrightarrow> (\<exists>v. actualCO2 (runtime apiDevice) = Some v \<and> 0 \<le> v))"
  by (simp add: discover_device_def Let_def js_ge_def split: option.splits)

theorem discovery_interfaces_witness:
  "[''sensors_only'' \<mapsto> ''true''] ''sensors_only'' = Some ''true''
   \<and> hasHumidifier (settings device0)
   \<and> device_type (discover_device [''sensors_only'' \<mapsto> ''true''] device0) = Sensor
   \<and> TemperatureSetting \<notin> set (device_interfaces (discover_device [''sensors_only'' \<mapsto> ''true''] device0))
   \<and> OnOff \<notin> set (device_interfaces (discover_device [''sensors_only'' \<mapsto> ''true''] device0))
   \<and> HumiditySetting \<notin> set (device_interfaces (discover_device [''sensors_only'' \<mapsto> ''true''] device0))
   \<and> Map.empty ''sensors_only'' \<noteq> Some ''true''
   \<and> device_type (discover_device Map.empty device0) = Thermostat
   \<and> TemperatureSetting \<in> set (device_interfaces (discover_device Map.empty device0))
   \<and> OnOff \<in> set (device_interfaces (discover_device Map.empty device0))
   \<and> HumiditySetting \<in> set (device_interfaces (discover_device Map.empty device0))
   \<and> AirQualitySensor \<in> set (device_interfaces (discover_device Map.empty device0))
   \<and> VOCSensor \<in> set (device_interfaces (discover_device Map.empty device0))
   \<and> CO2Sensor \<notin> set (device_interfaces (discover_device Map.empty device0))"
proof -
  have d0: "hasHumidifier (settings device0)" "actualAQScore (runtime device0) = Some 60"
    "actualVOC (runtime device0) = Some 500" "actualCO2 (runtime device0) = None"
    by (simp_all add: device0_def)
  have s1: "[''sensors_only'' \<mapsto> ''true''] ''sensors_only'' = Some ''true''" by simp
  have s2: "Map.empty ''sensors_only'' \<noteq> Some ''true''" by simp
  from d0 s1 s2
    discovery_interfaces [of "[''sensors_only'' \<mapsto> ''true'']" device0]
    discovery_interfaces [of Map.empty device0]
  show ?thesis by simp
qed

subsection \<open>Commands\<close>

lemma reload_answering_network:
  "map_option fst (reload (answering_network k) exact_runtime \<lparr>dev = d, provider = c\<rparr>) = Some (Inr ())"
  by (simp add: reload_def Let_def req_first_try answering_network_def request_config_def
       reload_apply_def device0_def)

lemma reload_answering_network_log:
  "map_option (length \<circ> http_log \<circ> provider \<circ> snd)
     (reload (answering_network k) exact_runtime \<lparr>dev = d, provider = c\<rparr>)
   = Some (Suc (length (http_log c)))"
  by (simp add: reload_def Let_def req_first_try answering_network_def request_config_def
       reload_apply_def device0_def)

lemma req_lapsing_network:
  "http_log c \<noteq> [] \<Longrightarrow>
   map_option fst (req lapsing_network meth ep json data Undefined c)
     = Some (Inl (AxiosError ''timeout''))"
  by (subst req.simps)
     (simp add: attempt_gt_def axios_request_def refreshToken_def axios_post_def
        lapsing_network_def Let_def)

lemma reload_lapsing_network:
  assumes "http_log c \<noteq> []"
  shows "map_option fst (reload lapsing_network R \<lparr>dev = d, provider = c\<rparr>)
           = Some (Inl (AxiosError ''timeout''))"
proof -
  obtain c' where "req lapsing_network ''get'' ''thermostat''
      (Some \<lparr>selectionType = ''thermostats'', selectionMatch = nativeId d,
             includeSettings = True, includeRuntime = True, includeEquipmentStatus = True\<rparr>)
      None Undefined c = Some (Inl (AxiosError ''timeout''), c')"
    using req_lapsing_network [OF assms, of "''get''" "''thermostat''"
      "Some \<lparr>selectionType = ''thermostats'', selectionMatch = nativeId d,
             includeSettings = True, includeRuntime = True, includeEquipmentStatus = True\<rparr>" None]
    by auto
  then show ?thesis by (simp add: reload_def Let_def)
qed

lemma celsiusToEcobeeInt_samples:
  "celsiusToEcobeeInt exact_runtime 21 = ''698''"
  "celsiusToEcobeeInt exact_runtime 20 = ''680''"
  "celsiusToEcobeeInt exact_runtime 24 = ''752''"
  by code_simp+

text \<open>
  C2, as the claim states it: an error raised by the request machinery during
  \<open>setTemperature\<close>, \<open>turnOn\<close> or \<open>turnOff\<close> is caught at the command and never reaches
  the caller. On a network where no exchange succeeds, each of the three commands ends
  with the error of the failed token refresh.
\<close>

theorem command_error_reaches_caller:
  "map_option fst (setTemperature dead_network exact_runtime command_scalar system0)
     = Some (Inl (AxiosError ''timeout''))
   \<and> map_option fst (turnOn dead_network exact_runtime system0) = Some (Inl (AxiosError ''timeout''))
   \<and> map_option fst (turnOff dead_network exact_runtime system0) = Some (Inl (AxiosError ''timeout''))"
proof (intro conjI)
  obtain c1 where "req dead_network ''post'' ''thermostat'' None
      (Some (setTemperature_data exact_runtime (nativeId (dev system0)) command_scalar)) Undefined
      (provider system0) = Some (Inl (AxiosError ''timeout''), c1)"
    using req_dead_network [of "''post''" "''thermostat''" None
      "Some (setTemperature_data exact_runtime (nativeId (dev system0)) command_scalar)" "provider system0"]
    by auto
  then show "map_option fst (setTemperature dead_network exact_runtime command_scalar system0)
     = Some (Inl (AxiosError ''timeout''))"
    by (simp add: setTemperature_def Let_def console_log_def)
next
  obtain c2 where "req dead_network ''post'' ''thermostat'' None
      (Some (fan_data (nativeId (dev system0)) ''on'')) Undefined
      (provider system0) = Some (Inl (AxiosError ''timeout''), c2)"
    using req_dead_network [of "''post''" "''thermostat''" None
      "Some (fan_data (nativeId (dev system0)) ''on'')" "provider system0"]
    by auto
  then show "map_option fst (turnOn dead_network exact_runtime system0) = Some (Inl (AxiosError ''timeout''))"
    by (simp add: turnOn_def Let_def console_log_def)
next
  obtain c3 where "req dead_network ''post'' ''thermostat'' None
      (Some (fan_data (nativeId (dev system0)) ''auto'')) Undefined
      (provider system0) = Some (Inl (AxiosError ''timeout''), c3)"
    using req_dead_network [of "''post''" "''thermostat''" None
      "Some (fan_data (nativeId (dev system0)) ''auto'')" "provider system0"]
    by auto
  then show "map_option fst (turnOff dead_network exact_runtime system0) = Some (Inl (AxiosError ''timeout''))"
    by (simp add: turnOff_def Let_def console_log_def)
qed

text \<open>
  C2, amended: an error that \<open>req\<close> raises during \<open>setTemperature\<close>, \<open>turnOn\<close> or
  \<open>turnOff\<close> is not caught by the command; the command ends with that error, be it
  raised for the command's own request or, after a status code 0, in the \<open>reload\<close>
  that follows. \<open>reload\<close> and \<open>refresh\<close> pass the errors of \<open>req\<close> on in the same
  way.
\<close>

theorem request_errors_propagate:
  "(req N ''post'' ''thermostat'' None (Some (setTemperature_data R (nativeId (dev s)) command))
       Undefined (provider s) = Some (Inl e, c1) \<longrightarrow>
      map_option fst (setTemperature N R command s) = Some (Inl e))
   \<and> (req N ''post'' ''thermostat'' None (Some (fan_data (nativeId (dev s)) ''on''))
       Undefined (provider s) = Some (Inl e, c2) \<longrightarrow>
      map_option fst (turnOn N R s) = Some (Inl e))
   \<and> (req N ''post'' ''thermostat'' None (Some (fan_data (nativeId (dev s)) ''auto''))
       Undefined (provider s) = Some (Inl e, c3) \<longrightarrow>
      map_option fst (turnOff N R s) = Some (Inl e))
   \<and> (req N ''post'' ''thermostat'' None (Some (setTemperature_data R (nativeId (dev s)) command))
         Undefined (provider s) = Some (Inr (StatusResponse 0), c1)
       \<and> map_option fst (reload N R
            \<lparr>dev = console_log ''setTemperature success''
                     (case command_mode command of
                        Some x \<Rightarrow> console_log ''setTemperature.mode''
                                   (console_log ''command'' (console_log ''setTemperature'' (dev s)))
                      | None \<Rightarrow> console_log ''command'' (console_log ''setTemperature'' (dev s))),
             provider = c1\<rparr>) = Some (Inl e) \<longrightarrow>
      map_option fst (setTemperature N R command s) = Some (Inl e))
   \<and> (req N ''post'' ''thermostat'' None (Some (fan_data (nativeId (dev s)) ''on''))
         Undefined (provider s) = Some (Inr (StatusResponse 0), c2)
       \<and> map_option fst (reload N R
            \<lparr>dev = console_log ''fanOn success'' (console_log ''fanOn: setting fan to on'' (dev s)),
             provider = c2\<rparr>) = Some (Inl e) \<longrightarrow>
      map_option fst (turnOn N R s) = Some (Inl e))
   \<and> (req N ''post'' ''thermostat'' None (Some (fan_data (nativeId (dev s)) ''auto''))
         Undefined (provider s) = Some (Inr (StatusResponse 0), c3)
       \<and> map_option fst (reload N R
            \<lparr>dev = console_log ''fanOff success'' (console_log ''fanOff: setting fan to auto'' (dev s)),
             provider = c3\<rparr>) = Some (Inl e) \<longrightarrow>
      map_option fst (turnOff N R s) = Some (Inl e))
   \<and> (req N ''get'' ''thermostat''
         (Some \<lparr>selectionType = ''thermostats'', selectionMatch = nativeId (dev s),
                includeSettings = True, includeRuntime = True, includeEquipmentStatus = True\<rparr>)
         None Undefined (provider s) = Some (Inl e, c4) \<longrightarrow>
      map_option fst (reload N R s) = Some (Inl e))
   \<and> (req N ''get'' ''thermostatSummary''
         (Some \<lparr>selectionType = ''thermostats'', selectionMatch = nativeId (dev s),
                includeSettings = False, includeRuntime = False, includeEquipmentStatus = True\<rparr>)
         None Undefined (provider s) = Some (Inl e, c5) \<longrightarrow>
      map_option fst (refresh N R refreshInterface s) = Some (Inl e))"
proof -
  have nid: "nativeId (console_log m d) = nativeId d" for m d
    by (simp add: console_log_def)
  show ?thesis
    by (auto simp: setTemperature_def turnOn_def turnOff_def reload_def refresh_def Let_def nid
        split: option.splits)
qed


theorem request_errors_propagate_witness:
  "map_option fst (req dead_network ''post'' ''thermostat'' None
      (Some (setTemperature_data exact_runtime (nativeId (dev system0)) command_pair)) Undefined
      (provider system0)) = Some (Inl (AxiosError ''timeout''))
   \<and> map_option fst (setTemperature dead_network exact_runtime command_pair system0)
       = Some (Inl (AxiosError ''timeout''))
   \<and> map_option fst (turnOn dead_network exact_runtime system0) = Some (Inl (AxiosError ''timeout''))
   \<and> map_option fst (turnOff dead_network exact_runtime system0) = Some (Inl (AxiosError ''timeout''))
   \<and> map_option fst (reload dead_network exact_runtime system0) = Some (Inl (AxiosError ''timeout''))
   \<and> map_option fst (refresh dead_network exact_runtime ''poll'' system0)
       = Some (Inl (AxiosError ''timeout''))
   \<and> map_option fst (req lapsing_network ''post'' ''thermostat'' None
      (Some (setTemperature_data exact_runtime (nativeId (dev system0)) command_pair)) Undefined
      (provider system0)) = Some (Inr (StatusResponse 0))
   \<and> map_option fst (setTemperature lapsing_network exact_runtime command_pair system0)
       = Some (Inl (AxiosError ''timeout''))
   \<and> map_option fst (turnOn lapsing_network exact_runtime system0) = Some (Inl (AxiosError ''timeout''))
   \<and> map_option fst (turnOff lapsing_network exact_runtime system0) = Some (Inl (AxiosError ''timeout''))"
proof -
  let ?e = "AxiosError ''timeout''"
  let ?data = "setTemperature_data exact_runtime (nativeId (dev system0)) command_pair"
  let ?on = "fan_data (nativeId (dev system0)) ''on''"
  let ?auto = "fan_data (nativeId (dev system0)) ''auto''"
  let ?full = "\<lparr>selectionType = ''thermostats'', selectionMatch = nativeId (dev system0),
             includeSettings = True, includeRuntime = True, includeEquipmentStatus = True\<rparr>"
  let ?summary = "\<lparr>selectionType = ''thermostats'', selectionMatch = nativeId (dev system0),
             includeSettings = False, includeRuntime = False, includeEquipmentStatus = True\<rparr>"
  obtain c1 where h1: "req dead_network ''post'' ''thermostat'' None (Some ?data) Undefined
      (provider system0) = Some (Inl ?e, c1)"
    using req_dead_network [of "''post''" "''thermostat''" None "Some ?data" "provider system0"]
    by auto
  obtain c2 where h2: "req dead_network ''post'' ''thermostat'' None (Some ?on) Undefined
      (provider system0) = Some (Inl ?e, c2)"
    using req_dead_network [of "''post''" "''thermostat''" None "Some ?on" "provider system0"]
    by auto
  obtain c3 where h3: "req dead_network ''post'' ''thermostat'' None (Some ?auto) Undefined
      (provider system0) = Some (Inl ?e, c3)"
    using req_dead_network [of "''post''" "''thermostat''" None "Some ?auto" "provider system0"]
    by auto
  obtain c4 where h4: "req dead_network ''get'' ''thermostat'' (Some ?full) None Undefined
      (provider system0) = Some (Inl ?e, c4)"
    using req_dead_network [of "''get''" "''thermostat''" "Some ?full" None "provider system0"]
    by auto
  obtain c5 where h5: "req dead_network ''get'' ''thermostatSummary'' (Some ?summary) None Undefined
      (provider system0) = Some (Inl ?e, c5)"
    using req_dead_network [of "''get''" "''thermostatSummary''" "Some ?summary" None "provider system0"]
    by auto
  from h1 h2 h3 h4 h5
    request_errors_propagate [of dead_network exact_runtime system0 command_pair ?e c1 c2 c3 c4 c5 "''poll''"]
  have dead: "map_option fst (req dead_network ''post'' ''thermostat'' None (Some ?data) Undefined
      (provider system0)) = Some (Inl ?e)"
    "map_option fst (setTemperature dead_network exact_runtime command_pair system0) = Some (Inl ?e)"
    "map_option fst (turnOn dead_network exact_runtime system0) = Some (Inl ?e)"
    "map_option fst (turnOff dead_network exact_runtime system0) = Some (Inl ?e)"
    "map_option fst (reload dead_network exact_runtime system0) = Some (Inl ?e)"
    "map_option fst (refresh dead_network exact_runtime ''poll'' system0) = Some (Inl ?e)"
    by simp_all
  let ?k1 = "(provider system0)\<lparr>http_log := http_log (provider system0) @
      [ApiCall (request_config ''post'' ''thermostat'' None (Some ?data) (provider system0))]\<rparr>"
  let ?k2 = "(provider system0)\<lparr>http_log := http_log (provider system0) @
      [ApiCall (request_config ''post'' ''thermostat'' None (Some ?on) (provider system0))]\<rparr>"
  let ?k3 = "(provider system0)\<lparr>http_log := http_log (provider system0) @
      [ApiCall (request_config ''post'' ''thermostat'' None (Some ?auto) (provider system0))]\<rparr>"
  have first: "api_reply lapsing_network (length (http_log (provider system0))) r = Inr (StatusResponse 0)" for r
    by (simp add: lapsing_network_def system0_def controller0_def)
  have g1: "req lapsing_network ''post'' ''thermostat'' None (Some ?data) Undefined
      (provider system0) = Some (Inr (StatusResponse 0), ?k1)"
    by (rule req_first_try) (rule first)
  have g2: "req lapsing_network ''post'' ''thermostat'' None (Some ?on) Undefined
      (provider system0) = Some (Inr (StatusResponse 0), ?k2)"
    by (rule req_first_try) (rule first)
  have g3: "req lapsing_network ''post'' ''thermostat'' None (Some ?auto) Undefined
      (provider system0) = Some (Inr (StatusResponse 0), ?k3)"
    by (rule req_first_try) (rule first)
  have r: "map_option fst (reload lapsing_network exact_runtime \<lparr>dev = d, provider = ?k1\<rparr>) = Some (Inl ?e)"
    "map_option fst (reload lapsing_network exact_runtime \<lparr>dev = d, provider = ?k2\<rparr>) = Some (Inl ?e)"
    "map_option fst (reload lapsing_network exact_runtime \<lparr>dev = d, provider = ?k3\<rparr>) = Some (Inl ?e)"
    for d
    by (rule reload_lapsing_network, simp)+
  from g1 g2 g3 r
    request_errors_propagate [of lapsing_network exact_runtime system0 command_pair ?e ?k1 ?k2 ?k3 c4 c5 "''poll''"]
  have lapsing: "map_option fst (req lapsing_network ''post'' ''thermostat'' None (Some ?data) Undefined
      (provider system0)) = Some (Inr (StatusResponse 0))"
    "map_option fst (setTemperature lapsing_network exact_runtime command_pair system0) = Some (Inl ?e)"
    "map_option fst (turnOn lapsing_network exact_runtime system0) = Some (Inl ?e)"
    "map_option fst (turnOff lapsing_network exact_runtime system0) = Some (Inl ?e)"
    by simp_all
  from dead lapsing show ?thesis by simp
qed

text \<open>
  C3. The payload of \<open>setTemperature\<close>: for a setpoint pair, one \<open>setHold\<close> function whose
  \<open>heatHoldTemp\<close> is \<open>celsiusToEcobeeInt\<close> of the first and whose \<open>coolHoldTemp\<close> is
  \<open>celsiusToEcobeeInt\<close> of the second element; for a scalar setpoint, both are
  \<open>celsiusToEcobeeInt\<close> of it, as text; a mode adds the \<open>hvacMode\<close> setting, and without a
  mode there is none. When the vendor answers the POST with status code 0, the command
  logs the success and continues as one \<open>reload\<close> from the state after the request. On
  another status code it logs the failure and returns normally in that state, with no
  further request.
\<close>

theorem setTemperature_hold_and_reload:
  "(command_setpoint command = Some (Pair sp0 sp1) \<longrightarrow>
      body_functions (setTemperature_data R nid command) =
        Some [\<lparr>function_type = ''setHold'',
               params = \<lparr>holdType = ''nextTransition'',
                         heatHoldTemp = TempString (celsiusToEcobeeInt R sp0),
                         coolHoldTemp = TempString (celsiusToEcobeeInt R sp1),
                         fan = None, isTemperatureAbsolute = None,
                         isTemperatureRelative = None\<rparr>\<rparr>])
   \<and> (command_setpoint command = Some (Scalar sp) \<longrightarrow>
      body_functions (setTemperature_data R nid command) =
        Some [\<lparr>function_type = ''setHold'',
               params = \<lparr>holdType = ''nextTransition'',
                         heatHoldTemp = TempString (celsiusToEcobeeInt R sp),
                         coolHoldTemp = TempString (celsiusToEcobeeInt R sp),
                         fan = None, isTemperatureAbsolute = None,
                         isTemperatureRelative = None\<rparr>\<rparr>])
   \<and> (command_mode command = Some m \<longrightarrow>
        body_thermostat_hvacMode (setTemperature_data R nid command) = Some (thermostatModeToEcobee m))
   \<and> (command_mode command = None \<longrightarrow>
        body_thermostat_hvacMode (setTemperature_data R nid command) = None)
   \<and> (req N ''post'' ''thermostat'' None (Some (setTemperature_data R (nativeId (dev s)) command))
         Undefined (provider s) = Some (Inr (StatusResponse 0), c1) \<longrightarrow>
       setTemperature N R command s =
         reload N R
           \<lparr>dev = (dev s)\<lparr>console := console (dev s) @ [''setTemperature'', ''command'']
                      @ (case command_mode command of Some x \<Rightarrow> [''setTemperature.mode''] | None \<Rightarrow> [])
                      @ [''setTemperature success'']\<rparr>,
            provider = c1\<rparr>)
   \<and> (req N ''post'' ''thermostat'' None (Some (setTemperature_data R (nativeId (dev s)) command))
         Undefined (provider s) = Some (Inr (StatusResponse k), c2) \<and> k \<noteq> 0 \<longrightarrow>
       setTemperature N R command s =
         Some (Inr (),
           \<lparr>dev = (dev s)\<lparr>console := console (dev s) @ [''setTemperature'', ''command'']
                      @ (case command_mode command of Some x \<Rightarrow> [''setTemperature.mode''] | None \<Rightarrow> [])
                      @ [''setTemperature failed'']\<rparr>,
            provider = c2\<rparr>))"
proof (intro conjI impI)
  assume "command_setpoint command = Some (Pair sp0 sp1)"
  then show "body_functions (setTemperature_data R nid command) =
        Some [\<lparr>function_type = ''setHold'',
               params = \<lparr>holdType = ''nextTransition'',
                         heatHoldTemp = TempString (celsiusToEcobeeInt R sp0),
                         coolHoldTemp = TempString (celsiusToEcobeeInt R sp1),
                         fan = None, isTemperatureAbsolute = None,
                         isTemperatureRelative = None\<rparr>\<rparr>]"
    by (simp add: setTemperature_data_def setHold_def Let_def split: option.splits)
next
  assume "command_setpoint command = Some (Scalar sp)"
  then show "body_functions (setTemperature_data R nid command) =
        Some [\<lparr>function_type = ''setHold'',
               params = \<lparr>holdType = ''nextTransition'',
                         heatHoldTemp = TempString (celsiusToEcobeeInt R sp),
                         coolHoldTemp = TempString (celsiusToEcobeeInt R sp),
                         fan = None, isTemperatureAbsolute = None,
                         isTemperatureRelative = None\<rparr>\<rparr>]"
    by (simp add: setTemperature_data_def setHold_def Let_def split: option.splits)
next
  assume "command_mode command = Some m"
  then show "body_thermostat_hvacMode (setTemperature_data R nid command) = Some (thermostatModeToEcobee m)"
    by (simp add: setTemperature_data_def Let_def split: option.splits setpoint_value.splits)
next
  assume "command_mode command = None"
  then show "body_thermostat_hvacMode (setTemperature_data R nid command) = None"
    by (simp add: setTemperature_data_def Let_def split: option.splits setpoint_value.splits)
next
  assume "req N ''post'' ''thermostat'' None (Some (setTemperature_data R (nativeId (dev s)) command))
         Undefined (provider s) = Some (Inr (StatusResponse 0), c1)"
  then show "setTemperature N R command s =
         reload N R
           \<lparr>dev = (dev s)\<lparr>console := console (dev s) @ [''setTemperature'', ''command'']
                      @ (case command_mode command of Some x \<Rightarrow> [''setTemperature.mode''] | None \<Rightarrow> [])
                      @ [''setTemperature success'']\<rparr>,
            provider = c1\<rparr>"
    by (simp add: setTemperature_def Let_def console_log_def split: option.splits)
next
  assume "req N ''post'' ''thermostat'' None (Some (setTemperature_data R (nativeId (dev s)) command))
         Undefined (provider s) = Some (Inr (StatusResponse k), c2) \<and> k \<noteq> 0"
  then show "setTemperature N R command s =
         Some (Inr (),
           \<lparr>dev = (dev s)\<lparr>console := console (dev s) @ [''setTemperature'', ''command'']
                      @ (case command_mode command of Some x \<Rightarrow> [''setTemperature.mode''] | None \<Rightarrow> [])
                      @ [''setTemperature failed'']\<rparr>,
            provider = c2\<rparr>)"
    by (simp add: setTemperature_def Let_def console_log_def split: option.splits)
qed

theorem setTemperature_hold_and_reload_witness:
  "command_setpoint command_scalar = Some (Scalar 21)
   \<and> command_mode command_scalar = Some Heat
   \<and> body_functions (setTemperature_data exact_runtime ''t1'' command_scalar) =
        Some [\<lparr>function_type = ''setHold'',
               params = \<lparr>holdType = ''nextTransition'',
                         heatHoldTemp = TempString ''698'', coolHoldTemp = TempString ''698'',
                         fan = None, isTemperatureAbsolute = None,
                         isTemperatureRelative = None\<rparr>\<rparr>]
   \<and> body_thermostat_hvacMode (setTemperature_data exact_runtime ''t1'' command_scalar) = Some ''heat''
   \<and> map_option fst (req (answering_network 0) ''post'' ''thermostat'' None
        (Some (setTemperature_data exact_runtime (nativeId (dev system0)) command_scalar)) Undefined
        (provider system0)) = Some (Inr (StatusResponse 0))
   \<and> map_option fst (setTemperature (answering_network 0) exact_runtime command_scalar system0)
       = Some (Inr ())
   \<and> map_option (length \<circ> http_log \<circ> provider \<circ> snd)
        (setTemperature (answering_network 0) exact_runtime command_scalar system0) = Some 2
   \<and> command_setpoint command_pair = Some (Pair 20 24)
   \<and> command_mode command_pair = None
   \<and> body_functions (setTemperature_data exact_runtime ''t1'' command_pair) =
        Some [\<lparr>function_type = ''setHold'',
               params = \<lparr>holdType = ''nextTransition'',
                         heatHoldTemp = TempString ''680'', coolHoldTemp = TempString ''752'',
                         fan = None, isTemperatureAbsolute = None,
                         isTemperatureRelative = None\<rparr>\<rparr>]
   \<and> body_thermostat_hvacMode (setTemperature_data exact_runtime ''t1'' command_pair) = None
   \<and> map_option fst (req (answering_network 3) ''post'' ''thermostat'' None
        (Some (setTemperature_data exact_runtime (nativeId (dev system0)) command_pair)) Undefined
        (provider system0)) = Some (Inr (StatusResponse 3))
   \<and> map_option fst (setTemperature (answering_network 3) exact_runtime command_pair system0)
       = Some (Inr ())
   \<and> map_option (length \<circ> http_log \<circ> provider \<circ> snd)
        (setTemperature (answering_network 3) exact_runtime command_pair system0) = Some 1
   \<and> map_option (console \<circ> dev \<circ> snd)
        (setTemperature (answering_network 3) exact_runtime command_pair system0)
       = Some [''setTemperature'', ''command'', ''setTemperature failed'']"
proof -
  let ?data1 = "setTemperature_data exact_runtime (nativeId (dev system0)) command_scalar"
  let ?data2 = "setTemperature_data exact_runtime (nativeId (dev system0)) command_pair"
  let ?c1 = "(provider system0)\<lparr>http_log := http_log (provider system0) @
      [ApiCall (request_config ''post'' ''thermostat'' None (Some ?data1) (provider system0))]\<rparr>"
  let ?c2 = "(provider system0)\<lparr>http_log := http_log (provider system0) @
      [ApiCall (request_config ''post'' ''thermostat'' None (Some ?data2) (provider system0))]\<rparr>"
  have cmd: "command_setpoint command_scalar = Some (Scalar 21)" "command_mode command_scalar = Some Heat"
    "command_setpoint command_pair = Some (Pair 20 24)" "command_mode command_pair = None"
    by (simp_all add: command_scalar_def command_pair_def)
  have h1: "req (answering_network 0) ''post'' ''thermostat'' None (Some ?data1) Undefined
      (provider system0) = Some (Inr (StatusResponse 0), ?c1)"
    by (rule req_first_try) (simp add: answering_network_def request_config_def)
  have h2: "req (answering_network 3) ''post'' ''thermostat'' None (Some ?data2) Undefined
      (provider system0) = Some (Inr (StatusResponse 3), ?c2) \<and> (3::int) \<noteq> 0"
    by (rule conjI, rule req_first_try) (simp_all add: answering_network_def request_config_def)
  have s0: "http_log (provider system0) = []" "console (dev system0) = []"
    by (simp_all add: system0_def controller0_def new_thermostat_def)
  from cmd h1
    setTemperature_hold_and_reload [of command_scalar 20 24 exact_runtime "''t1''" 21 Heat
      "answering_network 0" system0 ?c1 3 ?c2]
  have a: "body_functions (setTemperature_data exact_runtime ''t1'' command_scalar) =
        Some [\<lparr>function_type = ''setHold'',
               params = \<lparr>holdType = ''nextTransition'',
                         heatHoldTemp = TempString ''698'', coolHoldTemp = TempString ''698'',
                         fan = None, isTemperatureAbsolute = None,
                         isTemperatureRelative = None\<rparr>\<rparr>]"
    "body_thermostat_hvacMode (setTemperature_data exact_runtime ''t1'' command_scalar) = Some ''heat''"
    "map_option fst (setTemperature (answering_network 0) exact_runtime command_scalar system0)
       = Some (Inr ())"
    "map_option (length \<circ> http_log \<circ> provider \<circ> snd)
        (setTemperature (answering_network 0) exact_runtime command_scalar system0) = Some 2"
    by (simp_all add: celsiusToEcobeeInt_samples reload_answering_network
        reload_answering_network_log s0 del: map_option_eq_Some)
  from cmd h2
    setTemperature_hold_and_reload [of command_pair 20 24 exact_runtime "''t1''" 21 Heat
      "answering_network 3" system0 ?c1 3 ?c2]
  have b: "body_functions (setTemperature_data exact_runtime ''t1'' command_pair) =
        Some [\<lparr>function_type = ''setHold'',
               params = \<lparr>holdType = ''nextTransition'',
                         heatHoldTemp = TempString ''680'', coolHoldTemp = TempString ''752'',
                         fan = None, isTemperatureAbsolute = None,
                         isTemperatureRelative = None\<rparr>\<rparr>]"
    "body_thermostat_hvacMode (setTemperature_data exact_runtime ''t1'' command_pair) = None"
    "map_option fst (setTemperature (answering_network 3) exact_runtime command_pair system0)
       = Some (Inr ())"
    "map_option (length \<circ> http_log \<circ> provider \<circ> snd)
        (setTemperature (answering_network 3) exact_runtime command_pair system0) = Some 1"
    "map_option (console \<circ> dev \<circ> snd)
        (setTemperature (answering_network 3) exact_runtime command_pair system0)
       = Some [''setTemperature'', ''command'', ''setTemperature failed'']"
    by (simp_all add: celsiusToEcobeeInt_samples s0)
  from cmd h1 h2 a b show ?thesis by simp
qed

end
